theory Spec2Isabelle
  imports Complex_Main "HOL-Library.AList"
begin

section \<open>Errors and results\<close>

text \<open>
  Every Go function of the interpreter returns a pair (result, error).  The errors are
  values of one datatype: the two lexical errors, the parser's errors (a plain message,
  or a message with the offending token, which the source renders with a caret line),
  a failure of \<^verbatim>\<open>strconv.ParseFloat\<close>, and the evaluator's errors.
  The text of an evaluator error is the format string of the source with its
  arguments spliced in.
\<close>

record Position =
  Line :: nat
  Column :: nat
  Index :: nat

datatype TokenType =
    IDENTIFIER | STRING | INT_TOKEN | FLOAT | BOOLEAN | UNDEFINED
  | FN | LAMBDA | IF | ELSE | RETURN | TYPEOF | FOR | WHILE | DEBUG | USE | OUT
  | BINARY_OPERATOR | EQUALS | PLUS_EQ | MINUS_EQ | EQUALITY_OP | INEQUALITY_OP
  | SMALLER_THAN | GREATER_THAN | SMALLER_OR_EQUAL | GREATER_OR_EQUAL | AND | OR
  | NEGATION_OP | INCREMENT | DECREMENT
  | COMMA | DOT | COLON | SEMICOLON | OPEN_PAREN | CLOSE_PAREN | OPEN_BRACE | CLOSE_BRACE
  | OPEN_BRACKET | CLOSE_BRACKET | TERNARY
  | NEWLINE | EOF

record Token =
  Type :: TokenType
  Value :: string
  Position :: Position

datatype error =
    UnexpectedCharacter char nat nat
  | UnterminatedString
  | ParseError string
  | ParseErrorAt string Token
  | NumError string
  | RuntimeError string

section \<open>Tokenizer (tokenizer.go)\<close>

text \<open>
  The tokenizer works on \<^verbatim>\<open>[]rune(input)\<close>.  A rune is modelled by a
  character of HOL (a code point below 256), the input by the list of its runes, and
  every position and length counts runes, as the source does.  The three predicates of
  Go's \<^verbatim>\<open>unicode\<close> package are written out for these code points.
\<close>

definition IsSpace :: "char \<Rightarrow> bool" where
  "IsSpace c = (let n = (of_char c :: nat) in
     (9 \<le> n \<and> n \<le> 13) \<or> n = 32 \<or> n = 133 \<or> n = 160)"

definition IsDigit :: "char \<Rightarrow> bool" where
  "IsDigit c = (let n = (of_char c :: nat) in 48 \<le> n \<and> n \<le> 57)"

definition IsLetter :: "char \<Rightarrow> bool" where
  "IsLetter c = (let n = (of_char c :: nat) in
     (65 \<le> n \<and> n \<le> 90) \<or> (97 \<le> n \<and> n \<le> 122) \<or> n = 170 \<or> n = 181 \<or> n = 186
     \<or> (192 \<le> n \<and> n \<le> 214) \<or> (216 \<le> n \<and> n \<le> 246) \<or> (248 \<le> n \<and> n \<le> 255))"

definition keywordTable :: "string \<rightharpoonup> TokenType" where
  "keywordTable = map_of
     [(''fn'', FN), (''lambda'', LAMBDA), (''if'', IF), (''else'', ELSE),
      (''return'', RETURN), (''typeof'', TYPEOF), (''for'', FOR), (''while'', WHILE),
      (''debug'', DEBUG), (''use'', USE), (''out'', OUT), (''true'', BOOLEAN),
      (''false'', BOOLEAN), (''undef'', UNDEFINED)]"

record Tokenizer =
  input :: string
  position :: nat
  line :: nat
  index :: nat

definition NewTokenizer :: "string \<Rightarrow> Tokenizer" where
  "NewTokenizer inp = \<lparr>input = inp, position = 0, line = 0, index = 0\<rparr>"

definition current :: "Tokenizer \<Rightarrow> char" where
  "current t = (if position t \<ge> length (input t) then CHR 0x00 else input t ! position t)"

definition peek :: "Tokenizer \<Rightarrow> char" where
  "peek t = (if position t + 1 \<ge> length (input t) then CHR 0x00 else input t ! (position t + 1))"

definition advance :: "Tokenizer \<Rightarrow> Tokenizer" where
  "advance t = (if position t < length (input t)
     then t\<lparr>position := position t + 1, index := index t + 1\<rparr> else t)"

definition here :: "Tokenizer \<Rightarrow> Position" where
  "here t = \<lparr>Line = line t, Column = index t, Index = position t\<rparr>"

definition unescape :: "char \<Rightarrow> char" where
  "unescape c = (if c = CHR ''n'' then CHR 0x0A else if c = CHR ''t'' then CHR 0x09
     else if c = CHR ''r'' then CHR 0x0D else c)"

function readString_loop :: "char \<Rightarrow> Tokenizer \<Rightarrow> string \<Rightarrow> bool \<Rightarrow> (error + string) \<times> Tokenizer" where
  "readString_loop quote t result escaped =
     (if position t < length (input t) then
        (let c = current t in
         if escaped then readString_loop quote (advance t) (result @ [unescape c]) False
         else if c = CHR 0x5C then readString_loop quote (advance t) result True
         else if c = quote then (Inr result, advance t)
         else readString_loop quote (advance t) (result @ [c]) False)
      else (Inl UnterminatedString, t))"
  by pat_completeness auto
termination
  by (relation "measure (\<lambda>(q, t, r, e). length (input t) - position t)")
     (auto simp: advance_def)

declare readString_loop.simps [simp del]

definition readString :: "char \<Rightarrow> Tokenizer \<Rightarrow> (error + string) \<times> Tokenizer" where
  "readString quote t = readString_loop quote (advance t) [] False"

function readNumber_loop :: "Tokenizer \<Rightarrow> string \<Rightarrow> bool \<Rightarrow> (string \<times> bool) \<times> Tokenizer" where
  "readNumber_loop t result isFloat =
     (if position t < length (input t) \<and> (IsDigit (current t) \<or> current t = CHR ''.'') then
        (if current t = CHR ''.'' \<and> isFloat then ((result, isFloat), t)
         else readNumber_loop (advance t) (result @ [current t])
                (if current t = CHR ''.'' then True else isFloat))
      else ((result, isFloat), t))"
  by pat_completeness auto
termination
  by (relation "measure (\<lambda>(t, r, f). length (input t) - position t)")
     (auto simp: advance_def)

declare readNumber_loop.simps [simp del]

definition readNumber :: "Tokenizer \<Rightarrow> (string \<times> bool) \<times> Tokenizer" where
  "readNumber t = readNumber_loop t [] False"

function readIdentifier_loop :: "Tokenizer \<Rightarrow> string \<Rightarrow> string \<times> Tokenizer" where
  "readIdentifier_loop t result =
     (if position t < length (input t)
         \<and> (IsLetter (current t) \<or> IsDigit (current t) \<or> current t = CHR ''_'')
      then readIdentifier_loop (advance t) (result @ [current t])
      else (result, t))"
  by pat_completeness auto
termination
  by (relation "measure (\<lambda>(t, r). length (input t) - position t)")
     (auto simp: advance_def)

declare readIdentifier_loop.simps [simp del]

definition readIdentifier :: "Tokenizer \<Rightarrow> string \<times> Tokenizer" where
  "readIdentifier t = readIdentifier_loop t []"

definition isOperator :: "char \<Rightarrow> bool" where
  "isOperator c = (c \<in> set ''+-*/%=<>!&|^'')"

definition twoCharOperators :: "string list" where
  "twoCharOperators =
     [''=='', ''!='', ''<='', ''>='', ''&&'', ''||'', ''++'', ''--'', ''+='', ''-='',
      ''*='', ''/='', ''**'']"

function readOperator_loop :: "Tokenizer \<Rightarrow> string \<Rightarrow> string \<times> Tokenizer" where
  "readOperator_loop t result =
     (if position t < length (input t) \<and> isOperator (current t) then
        (if length (result @ [current t]) \<ge> 2 \<and> result @ [current t] \<in> set twoCharOperators
         then (result @ [current t], advance t)
         else readOperator_loop (advance t) (result @ [current t]))
      else (result, t))"
  by pat_completeness auto
termination
  by (relation "measure (\<lambda>(t, r). length (input t) - position t)")
     (auto simp: advance_def)

declare readOperator_loop.simps [simp del]

definition readOperator :: "Tokenizer \<Rightarrow> string \<times> Tokenizer" where
  "readOperator t = readOperator_loop t []"

definition getOperatorType :: "string \<Rightarrow> TokenType" where
  "getOperatorType op =
     (if op = ''='' then EQUALS
      else if op = ''=='' then EQUALITY_OP
      else if op = ''!='' then INEQUALITY_OP
      else if op = ''<'' then SMALLER_THAN
      else if op = ''>'' then GREATER_THAN
      else if op = ''<='' then SMALLER_OR_EQUAL
      else if op = ''>='' then GREATER_OR_EQUAL
      else if op = ''&&'' then AND
      else if op = ''||'' then OR
      else if op = ''!'' then NEGATION_OP
      else if op = ''++'' then INCREMENT
      else if op = ''--'' then DECREMENT
      else if op = ''+='' then PLUS_EQ
      else if op = ''-='' then MINUS_EQ
      else BINARY_OPERATOR)"

function skipComment :: "Tokenizer \<Rightarrow> Tokenizer" where
  "skipComment t =
     (if position t < length (input t) \<and> current t \<noteq> CHR 0x0A
      then skipComment (advance t) else t)"
  by pat_completeness auto
termination
  by (relation "measure (\<lambda>t. length (input t) - position t)") (auto simp: advance_def)

declare skipComment.simps [simp del]

definition punctuation :: "char \<rightharpoonup> TokenType" where
  "punctuation = map_of
     [(CHR ''('', OPEN_PAREN), (CHR '')'', CLOSE_PAREN), (CHR ''{'', OPEN_BRACE),
      (CHR ''}'', CLOSE_BRACE), (CHR ''['', OPEN_BRACKET), (CHR '']'', CLOSE_BRACKET),
      (CHR '','', COMMA), (CHR ''.'', DOT), (CHR '':'', COLON), (CHR '';'', SEMICOLON),
      (CHR ''?'', TERNARY)]"

function Tokenize_loop :: "Tokenizer \<Rightarrow> Token list \<Rightarrow> error + Token list" where
  "Tokenize_loop t tokens =
     (if position t < length (input t) then
        (let c = current t in
         if c = CHR 0x0A then
           Tokenize_loop (advance (t\<lparr>line := line t + 1, index := 0\<rparr>))
             (tokens @ [\<lparr>Type = NEWLINE, Value = [c], Position = here t\<rparr>])
         else if IsSpace c then Tokenize_loop (advance t) tokens
         else if c = CHR ''#'' then Tokenize_loop (skipComment t) tokens
         else if c = CHR 0x22 \<or> c = CHR 0x27 then
           (case readString c t of
              (Inl err, t') \<Rightarrow> Inl err
            | (Inr str, t') \<Rightarrow>
                Tokenize_loop t' (tokens @ [\<lparr>Type = STRING, Value = str, Position = here t\<rparr>]))
         else if IsDigit c then
           (case readNumber t of
              ((num, isFloat), t') \<Rightarrow>
                Tokenize_loop t'
                  (tokens @ [\<lparr>Type = (if isFloat then FLOAT else INT_TOKEN), Value = num,
                              Position = here t\<rparr>]))
         else if IsLetter c \<or> c = CHR ''_'' then
           (case readIdentifier t of
              (identifier, t') \<Rightarrow>
                Tokenize_loop t'
                  (tokens @ [\<lparr>Type = (case keywordTable identifier of Some kw \<Rightarrow> kw
                                       | None \<Rightarrow> IDENTIFIER),
                              Value = identifier, Position = here t\<rparr>]))
         else
           (case punctuation c of
              Some ty \<Rightarrow>
                Tokenize_loop (advance t)
                  (tokens @ [\<lparr>Type = ty, Value = [c], Position = here t\<rparr>])
            | None \<Rightarrow>
                if isOperator c then
                  (case readOperator t of
                     (op, t') \<Rightarrow>
                       Tokenize_loop t'
                         (tokens @ [\<lparr>Type = getOperatorType op, Value = op,
                                     Position = here t\<rparr>]))
                else Inl (UnexpectedCharacter c (line t) (index t))))
      else Inr (tokens @ [\<lparr>Type = EOF, Value = [], Position = here t\<rparr>]))"
  by pat_completeness auto
termination
proof -
  have adv: "\<And>t. position t < length (input t)
      \<Longrightarrow> position (advance t) = Suc (position t) \<and> input (advance t) = input t"
    by (simp add: advance_def)
  have rs: "\<And>q t r e res t'. readString_loop q t r e = (res, t')
      \<Longrightarrow> position t \<le> position t' \<and> input t' = input t"
  proof -
    fix q t r e res t'
    show "readString_loop q t r e = (res, t') \<Longrightarrow> position t \<le> position t' \<and> input t' = input t"
    proof (induction q t r e rule: readString_loop.induct)
      case (1 quote t result escaped)
      show ?case
      proof (cases "position t < length (input t)")
        case True
        with "1.prems" "1.IH" adv [OF True] show ?thesis
          by (simp add: readString_loop.simps [of quote t result escaped] Let_def
                split: if_splits)
      next
        case False
        with "1.prems" show ?thesis
          by (simp add: readString_loop.simps [of quote t result escaped])
      qed
    qed
  qed
  have rn: "\<And>t r f res t'. readNumber_loop t r f = (res, t')
      \<Longrightarrow> position t \<le> position t' \<and> input t' = input t"
  proof -
    fix t r f res t'
    show "readNumber_loop t r f = (res, t') \<Longrightarrow> position t \<le> position t' \<and> input t' = input t"
    proof (induction t r f rule: readNumber_loop.induct)
      case (1 t result isFloat)
      show ?case
      proof (cases "position t < length (input t)")
        case True
        with "1.prems" "1.IH" adv [OF True] show ?thesis
          by (simp add: readNumber_loop.simps [of t result isFloat] split: if_splits)
      next
        case False
        with "1.prems" show ?thesis
          by (simp add: readNumber_loop.simps [of t result isFloat])
      qed
    qed
  qed
  have ri: "\<And>t r res t'. readIdentifier_loop t r = (res, t')
      \<Longrightarrow> position t \<le> position t' \<and> input t' = input t"
  proof -
    fix t r res t'
    show "readIdentifier_loop t r = (res, t') \<Longrightarrow> position t \<le> position t' \<and> input t' = input t"
    proof (induction t r rule: readIdentifier_loop.induct)
      case (1 t result)
      show ?case
      proof (cases "position t < length (input t)")
        case True
        with "1.prems" "1.IH" adv [OF True] show ?thesis
          by (simp add: readIdentifier_loop.simps [of t result] split: if_splits)
      next
        case False
        with "1.prems" show ?thesis
          by (simp add: readIdentifier_loop.simps [of t result])
      qed
    qed
  qed
  have ro: "\<And>t r res t'. readOperator_loop t r = (res, t')
      \<Longrightarrow> position t \<le> position t' \<and> input t' = input t"
  proof -
    fix t r res t'
    show "readOperator_loop t r = (res, t') \<Longrightarrow> position t \<le> position t' \<and> input t' = input t"
    proof (induction t r rule: readOperator_loop.induct)
      case (1 t result)
      show ?case
      proof (cases "position t < length (input t)")
        case True
        with "1.prems" "1.IH" adv [OF True] show ?thesis
          by (auto simp add: readOperator_loop.simps [of t result] Let_def split: if_splits)
      next
        case False
        with "1.prems" show ?thesis
          by (simp add: readOperator_loop.simps [of t result])
      qed
    qed
  qed
  have sc: "\<And>t. position t \<le> position (skipComment t) \<and> input (skipComment t) = input t"
  proof -
    fix t
    show "position t \<le> position (skipComment t) \<and> input (skipComment t) = input t"
    proof (induction t rule: skipComment.induct)
      case (1 t)
      show ?case
      proof (cases "position t < length (input t)")
        case True
        with "1.IH" adv [OF True] show ?thesis
          by (auto simp add: skipComment.simps [of t])
      next
        case False
        then show ?thesis
          by (auto simp add: skipComment.simps [of t])
      qed
    qed
  qed
  have decr: "\<And>t t'. position t < length (input t) \<Longrightarrow> position t < position t'
      \<Longrightarrow> input t' = input t
      \<Longrightarrow> length (input t') - position t' < length (input t) - position t"
    by simp
  show ?thesis
  proof (relation "measure (\<lambda>(t, toks). length (input t) - position t)", goal_cases)
    case 1
    show ?case by simp
  next
    case (2 t tokens x)
    then show ?case by (simp add: advance_def)
  next
    case (3 t tokens x)
    then show ?case by (simp add: advance_def)
  next
    case (4 t tokens x)
    from 4(1) have "skipComment t = skipComment (advance t)"
      using 4 by (auto simp add: skipComment.simps [of t])
    with sc [of "advance t"] adv [OF 4(1)] 4(1) show ?case by (simp; linarith)
  next
    case (5 t tokens x xa y b)
    from 5 have "readString_loop x (advance t) [] False = (xa, y)"
      by (simp add: readString_def)
    from rs [OF this] adv [OF 5(1)] 5(1) show ?case by (simp; linarith)
  next
    case (6 t tokens x xa y xb ya)
    from 6 have "readNumber_loop (advance t) ([] @ [current t])
        (if current t = CHR ''.'' then True else False) = (xa, y)"
      by (simp add: readNumber_def readNumber_loop.simps [of t "[]" False])
    from rn [OF this] adv [OF 6(1)] 6(1) show ?case by (simp; linarith)
  next
    case (7 t tokens x xa y)
    from 7 have "readIdentifier_loop (advance t) ([] @ [current t]) = (xa, y)"
      by (simp add: readIdentifier_def readIdentifier_loop.simps [of t "[]"])
    from ri [OF this] adv [OF 7(1)] 7(1) show ?case by (simp; linarith)
  next
    case (8 t tokens x xa y)
    from 8 have "readOperator_loop (advance t) ([] @ [current t]) = (xa, y)"
      by (simp add: readOperator_def readOperator_loop.simps [of t "[]"] Let_def)
    from ro [OF this] adv [OF 8(1)] 8(1) show ?case by (simp; linarith)
  next
    case (9 t tokens x x2)
    then show ?case by (simp add: advance_def)
  qed
qed

declare Tokenize_loop.simps [simp del]

definition Tokenize :: "string \<Rightarrow> error + Token list" where
  "Tokenize inp = Tokenize_loop (NewTokenizer inp) []"

section \<open>Numbers (Go's float64)\<close>

text \<open>
  A value of type \<^verbatim>\<open>float64\<close> is a rational number, an infinity or NaN.  Every
  finite float64 is such a rational; rounding is not modelled.  Where the result of a
  library function depends on rounding or on formatting of a non-integer, it is taken
  from the host record below; where IEEE arithmetic is exact (small integers), the
  result is written out.
\<close>

datatype float64 = Finite rat | PosInf | NegInf | NaN

definition floatEq :: "float64 \<Rightarrow> float64 \<Rightarrow> bool" where
  "floatEq a b = (a \<noteq> NaN \<and> b \<noteq> NaN \<and> a = b)"

fun floatLess :: "float64 \<Rightarrow> float64 \<Rightarrow> bool" where
  "floatLess (Finite x) (Finite y) = (x < y)"
| "floatLess (Finite x) PosInf = True"
| "floatLess NegInf (Finite y) = True"
| "floatLess NegInf PosInf = True"
| "floatLess _ _ = False"

definition floatNeg :: "float64 \<Rightarrow> float64" where
  "floatNeg a = (case a of Finite x \<Rightarrow> Finite (- x) | PosInf \<Rightarrow> NegInf
                 | NegInf \<Rightarrow> PosInf | NaN \<Rightarrow> NaN)"

definition exactInt :: "rat \<Rightarrow> bool" where
  "exactInt r = (r = of_int \<lfloor>r\<rfloor> \<and> \<bar>r\<bar> \<le> 9007199254740992)"

definition truncateRat :: "rat \<Rightarrow> int" where
  "truncateRat r = (if 0 \<le> r then \<lfloor>r\<rfloor> else \<lceil>r\<rceil>)"

function natToString :: "nat \<Rightarrow> string" where
  "natToString n = (if n < 10 then [char_of (48 + n)]
                    else natToString (n div 10) @ [char_of (48 + n mod 10)])"
  by pat_completeness auto
termination
  by (relation "measure id") auto

declare natToString.simps [simp del]

definition FormatInt :: "int \<Rightarrow> string" where
  "FormatInt i = (if i < 0 then CHR ''-'' # natToString (nat (- i)) else natToString (nat i))"

fun digitsValue :: "nat \<Rightarrow> string \<Rightarrow> nat" where
  "digitsValue acc [] = acc"
| "digitsValue acc (c # cs) = digitsValue (10 * acc + (of_char c - 48)) cs"

definition Atoi :: "string \<Rightarrow> int option" where
  "Atoi str =
     (let neg = (str \<noteq> [] \<and> hd str = CHR ''-'');
          ds = (if str \<noteq> [] \<and> (hd str = CHR ''-'' \<or> hd str = CHR ''+'') then tl str else str)
      in if ds = [] \<or> \<not> list_all IsDigit ds then None
         else (let n = int (digitsValue 0 ds) in
               if neg then (if n \<le> 9223372036854775808 then Some (- n) else None)
               else (if n \<le> 9223372036854775807 then Some n else None)))"

section \<open>AST (ast.go)\<close>

datatype Statement =
    Program "Statement list"
  | Identifier string
  | NumericLiteral float64
  | StringLiteral string
  | BooleanLiteral bool
  | UndefinedLiteral
  | NullLiteral
  | ArrayLiteral "Statement list"
  | ObjectLiteral "(string \<times> Statement) list"
  | BinaryExpr Statement Statement string
  | UnaryExpr Statement string
  | AssignmentExpr Statement Statement
  | ActionAssignmentExpr Statement Statement string "Statement list"
  | CallExpr Statement "Statement list"
  | MemberExpr Statement Statement bool
  | TernaryExpr Statement Statement Statement
  | TypeofExpr Statement
  | EqualityExpr Statement Statement string
  | InequalityExpr Statement Statement string
  | LogicalExpr Statement Statement string
  | FunctionDeclaration string "Parameter list" "Statement list" bool
  | IfStatement Statement "Statement list" "Statement list"
  | WhileStatement Statement "Statement list"
  | ForStatement Statement Statement Statement "Statement list"
  | ReturnExpr Statement
  | DebugStatement "Statement list"
  | UseStatement string
and Parameter = Parameter string "Statement option"

section \<open>Runtime values (values.go)\<close>

text \<open>
  A pointer to an environment is the list of the addresses of its frames, the
  environment's own frame first and the root last; the nil pointer is the empty list.
  The \<^verbatim>\<open>parent\<close> field is written once, by \<^verbatim>\<open>NewEnvironment\<close>, and nothing
  in the source assigns it afterwards, so the chain of an environment is fixed when it is
  created.  The maps of a frame are mutable and live in the store, as do the element
  slice of an array value and the property map of an object value: two values that hold
  the same address are aliases.  The property map of an object is kept as an association
  list with one entry for each key (\<open>AList.update\<close> writes a key, \<open>map_of\<close> reads
  it), so that its length is \<^verbatim>\<open>len(Properties)\<close>.
\<close>

type_synonym env_ptr = "nat list"

datatype RuntimeValue =
    NullValue
  | UndefinedValue
  | VoidValue
  | NumberValue float64
  | BooleanValue bool
  | StringValue string
  | ArrayValue nat
  | ObjectValue nat
  | FunctionValue string "Parameter list" "Statement list" env_ptr bool bool
  | NativeFunctionValue string NativeFunctionCall
  | ReturnValue RuntimeValue
and NativeFunctionCall =
    HostFunction nat
  | PrototypeMethod RuntimeValue

record Environment =
  variables :: "string \<rightharpoonup> RuntimeValue"
  constants :: "string \<rightharpoonup> bool"

record State =
  frames :: "nat \<Rightarrow> Environment"
  nextFrame :: nat
  arrays :: "nat \<Rightarrow> RuntimeValue list"
  nextArray :: nat
  objects :: "nat \<Rightarrow> (string \<times> RuntimeValue) list"
  nextObject :: nat

datatype 'a result = Ok 'a | Err error | Panic string | OutOfFuel

definition andThen ::
  "'a result \<times> State \<Rightarrow> ('a \<Rightarrow> State \<Rightarrow> 'b result \<times> State) \<Rightarrow> 'b result \<times> State" where
  "andThen m f = (case m of
       (Ok v, s) \<Rightarrow> f v s
     | (Err e, s) \<Rightarrow> (Err e, s)
     | (Panic msg, s) \<Rightarrow> (Panic msg, s)
     | (OutOfFuel, s) \<Rightarrow> (OutOfFuel, s))"

definition nilDereference :: string where
  "nilDereference = ''invalid memory address or nil pointer dereference''"

definition NULL_TYPE :: string where "NULL_TYPE = ''null''"
definition UNDEF_TYPE :: string where "UNDEF_TYPE = ''undef''"
definition VOID_TYPE :: string where "VOID_TYPE = ''void''"
definition NUMBER_TYPE :: string where "NUMBER_TYPE = ''number''"
definition BOOLEAN_TYPE :: string where "BOOLEAN_TYPE = ''boolean''"
definition STRING_TYPE :: string where "STRING_TYPE = ''string''"
definition FUNCTION_TYPE :: string where "FUNCTION_TYPE = ''function''"
definition NATIVE_FN_TYPE :: string where "NATIVE_FN_TYPE = ''native-fn''"
definition ARRAY_TYPE :: string where "ARRAY_TYPE = ''array''"
definition OBJECT_TYPE :: string where "OBJECT_TYPE = ''object''"
definition RETURN_TYPE :: string where "RETURN_TYPE = ''return''"

fun TypeOf :: "RuntimeValue \<Rightarrow> string" where
  "TypeOf NullValue = NULL_TYPE"
| "TypeOf UndefinedValue = UNDEF_TYPE"
| "TypeOf VoidValue = VOID_TYPE"
| "TypeOf (NumberValue v) = NUMBER_TYPE"
| "TypeOf (BooleanValue v) = BOOLEAN_TYPE"
| "TypeOf (StringValue v) = STRING_TYPE"
| "TypeOf (ArrayValue a) = ARRAY_TYPE"
| "TypeOf (ObjectValue a) = OBJECT_TYPE"
| "TypeOf (FunctionValue name params body declEnv export anonymous) = FUNCTION_TYPE"
| "TypeOf (NativeFunctionValue name call) = NATIVE_FN_TYPE"
| "TypeOf (ReturnValue v) = RETURN_TYPE"

fun IsTruthy :: "State \<Rightarrow> RuntimeValue \<Rightarrow> bool" where
  "IsTruthy s NullValue = False"
| "IsTruthy s UndefinedValue = False"
| "IsTruthy s VoidValue = False"
| "IsTruthy s (NumberValue v) = (v \<noteq> Finite 0 \<and> v \<noteq> NaN)"
| "IsTruthy s (BooleanValue v) = v"
| "IsTruthy s (StringValue v) = (v \<noteq> [])"
| "IsTruthy s (ArrayValue a) = (length (arrays s a) > 0)"
| "IsTruthy s (ObjectValue a) = (length (objects s a) > 0)"
| "IsTruthy s (FunctionValue name params body declEnv export anonymous) = True"
| "IsTruthy s (NativeFunctionValue name call) = True"
| "IsTruthy s (ReturnValue v) = IsTruthy s v"

text \<open>
  What the evaluator takes from outside the core: the callable of a native function value
  (the standard library and the prototype methods), Go's library functions on float64
  where they round or format, the order in which a \<^verbatim>\<open>range\<close> loop visits the keys of
  a map (Go leaves it unspecified), and the rendering of arrays and objects.  Every
  theorem below holds for every host.
\<close>

record host =
  nativeCall :: "string \<Rightarrow> NativeFunctionCall \<Rightarrow> RuntimeValue list \<Rightarrow> env_ptr \<Rightarrow> State
                   \<Rightarrow> RuntimeValue result \<times> State"
  parseFloat :: "string \<Rightarrow> error + float64"
  floatArith :: "string \<Rightarrow> float64 \<Rightarrow> float64 \<Rightarrow> float64"
  formatFloat :: "float64 \<Rightarrow> string"
  floatToInt :: "float64 \<Rightarrow> int"
  rangeOrder :: "(string \<rightharpoonup> RuntimeValue) \<Rightarrow> string list"
  renderContainer :: "State \<Rightarrow> RuntimeValue \<Rightarrow> string"

definition floatBinary :: "host \<Rightarrow> string \<Rightarrow> float64 \<Rightarrow> float64 \<Rightarrow> float64" where
  "floatBinary H op a b =
     (case (a, b) of
        (Finite x, Finite y) \<Rightarrow>
          (if exactInt x \<and> exactInt y \<and> op = ''+'' \<and> exactInt (x + y) then Finite (x + y)
           else if exactInt x \<and> exactInt y \<and> op = ''-'' \<and> exactInt (x - y) then Finite (x - y)
           else if exactInt x \<and> exactInt y \<and> op = ''*'' \<and> exactInt (x * y) then Finite (x * y)
           else if exactInt x \<and> exactInt y \<and> op = ''/'' \<and> y \<noteq> 0 \<and> exactInt (x / y)
             then Finite (x / y)
           else floatArith H op a b)
      | _ \<Rightarrow> floatArith H op a b)"

definition toInt :: "host \<Rightarrow> float64 \<Rightarrow> int" where
  "toInt H f =
     (case f of
        Finite r \<Rightarrow> (if \<bar>r\<bar> < 9223372036854775808 then truncateRat r else floatToInt H f)
      | _ \<Rightarrow> floatToInt H f)"

definition FormatFloat :: "host \<Rightarrow> float64 \<Rightarrow> string" where
  "FormatFloat H f =
     (case f of
        Finite r \<Rightarrow> (if r = of_int \<lfloor>r\<rfloor> \<and> \<bar>r\<bar> < 1000000 then FormatInt \<lfloor>r\<rfloor>
                     else formatFloat H f)
      | _ \<Rightarrow> formatFloat H f)"

definition ParseFloat :: "host \<Rightarrow> string \<Rightarrow> error + float64" where
  "ParseFloat H str =
     (if str \<noteq> [] \<and> list_all IsDigit str \<and> int (digitsValue 0 str) \<le> 9007199254740992
      then Inr (Finite (of_nat (digitsValue 0 str)))
      else parseFloat H str)"

fun Join :: "string list \<Rightarrow> string \<Rightarrow> string" where
  "Join [] sep = []"
| "Join [x] sep = x"
| "Join (x # y # xs) sep = x @ sep @ Join (y # xs) sep"

fun Contains :: "string \<Rightarrow> string \<Rightarrow> bool" where
  "Contains [] substr = (substr = [])"
| "Contains (c # cs) substr = (take (length substr) (c # cs) = substr \<or> Contains cs substr)"

function ReplaceAll :: "string \<Rightarrow> string \<Rightarrow> string \<Rightarrow> string" where
  "ReplaceAll str old new =
     (if old = [] then new @ concat (map (\<lambda>c. c # new) str)
      else if str = [] then []
      else if take (length old) str = old
        then new @ ReplaceAll (drop (length old) str) old new
      else hd str # ReplaceAll (tl str) old new)"
  by pat_completeness auto
termination
  by (relation "measure (\<lambda>(str, old, new). length str)") auto

declare ReplaceAll.simps [simp del]

definition paramString :: "Parameter \<Rightarrow> string" where
  "paramString p = (case p of
       Parameter name (Some d) \<Rightarrow> name @ ''=(...)''
     | Parameter name None \<Rightarrow> name)"

fun String :: "host \<Rightarrow> State \<Rightarrow> RuntimeValue \<Rightarrow> string" where
  "String H s NullValue = ''null''"
| "String H s UndefinedValue = ''undef''"
| "String H s VoidValue = []"
| "String H s (NumberValue v) =
     (case v of
        Finite r \<Rightarrow> (if r = of_int \<lfloor>r\<rfloor> \<and> \<bar>r\<bar> < 9223372036854775808 then FormatInt \<lfloor>r\<rfloor>
                     else FormatFloat H v)
      | _ \<Rightarrow> FormatFloat H v)"
| "String H s (BooleanValue v) = (if v then ''true'' else ''false'')"
| "String H s (StringValue v) = [CHR 0x27] @ v @ [CHR 0x27]"
| "String H s (ArrayValue a) = renderContainer H s (ArrayValue a)"
| "String H s (ObjectValue a) = renderContainer H s (ObjectValue a)"
| "String H s (FunctionValue name params body declEnv export anonymous) =
     (if anonymous then ''lambda '' @ Join (map paramString params) '' '' @ '' { ... }''
      else ''fn '' @ name @ '' '' @ Join (map paramString params) '' '' @ '' { ... }'')"
| "String H s (NativeFunctionValue name call) = ''fn '' @ name"
| "String H s (ReturnValue v) = String H s v"

definition prototypeNames :: "RuntimeValue \<Rightarrow> string list" where
  "prototypeNames v =
     (case v of
        NumberValue x \<Rightarrow> [''string'']
      | BooleanValue x \<Rightarrow> [''string'']
      | StringValue x \<Rightarrow>
          [''length'', ''toUpperCase'', ''toLowerCase'', ''charAt'', ''substring'', ''split'']
      | ArrayValue a \<Rightarrow> [''length'', ''push'', ''pop'', ''join'', ''includes'']
      | ObjectValue a \<Rightarrow> [''keys'', ''values'']
      | FunctionValue name params body declEnv export anonymous \<Rightarrow> [''call'']
      | _ \<Rightarrow> [])"

definition Prototypes :: "RuntimeValue \<Rightarrow> RuntimeValue list" where
  "Prototypes v = map (\<lambda>name. NativeFunctionValue name (PrototypeMethod v)) (prototypeNames v)"

definition MakeArray :: "RuntimeValue list \<Rightarrow> State \<Rightarrow> RuntimeValue \<times> State" where
  "MakeArray elements s =
     (ArrayValue (nextArray s),
      s\<lparr>arrays := (arrays s)(nextArray s := elements), nextArray := nextArray s + 1\<rparr>)"

definition MakeObject :: "(string \<times> RuntimeValue) list \<Rightarrow> State \<Rightarrow> RuntimeValue \<times> State" where
  "MakeObject properties s =
     (ObjectValue (nextObject s),
      s\<lparr>objects := (objects s)(nextObject s := properties), nextObject := nextObject s + 1\<rparr>)"

section \<open>Environments (environment.go)\<close>

definition NewEnvironment :: "env_ptr \<Rightarrow> State \<Rightarrow> env_ptr \<times> State" where
  "NewEnvironment parent s =
     (nextFrame s # parent,
      s\<lparr>frames := (frames s)(nextFrame s := \<lparr>variables = Map.empty, constants = Map.empty\<rparr>),
        nextFrame := nextFrame s + 1\<rparr>)"

definition setVariable :: "nat \<Rightarrow> string \<Rightarrow> RuntimeValue \<Rightarrow> State \<Rightarrow> State" where
  "setVariable a name val s =
     s\<lparr>frames := (frames s)(a := (frames s a)\<lparr>variables := (variables (frames s a))(name \<mapsto> val)\<rparr>)\<rparr>"

definition setConstant :: "nat \<Rightarrow> string \<Rightarrow> State \<Rightarrow> State" where
  "setConstant a name s =
     s\<lparr>frames := (frames s)(a := (frames s a)\<lparr>constants := (constants (frames s a))(name \<mapsto> True)\<rparr>)\<rparr>"

definition isConstantIn :: "State \<Rightarrow> nat \<Rightarrow> string \<Rightarrow> bool" where
  "isConstantIn s a name = (case constants (frames s a) name of Some b \<Rightarrow> b | None \<Rightarrow> False)"

fun DeclareVar :: "env_ptr \<Rightarrow> string \<Rightarrow> RuntimeValue \<Rightarrow> bool \<Rightarrow> State \<Rightarrow> RuntimeValue result \<times> State" where
  "DeclareVar [] name val isConstant s = (Panic nilDereference, s)"
| "DeclareVar (a # parent) name val isConstant s =
     (Ok val, if isConstant then setConstant a name (setVariable a name val s)
              else setVariable a name val s)"

fun AssignVar_loop :: "env_ptr \<Rightarrow> string \<Rightarrow> RuntimeValue \<Rightarrow> State \<Rightarrow> State option" where
  "AssignVar_loop [] name val s = None"
| "AssignVar_loop (a # parent) name val s =
     (if variables (frames s a) name \<noteq> None then Some (setVariable a name val s)
      else AssignVar_loop parent name val s)"

fun AssignVar :: "env_ptr \<Rightarrow> string \<Rightarrow> RuntimeValue \<Rightarrow> State \<Rightarrow> RuntimeValue result \<times> State" where
  "AssignVar [] name val s = (Panic nilDereference, s)"
| "AssignVar (a # parent) name val s =
     (if isConstantIn s a name then (Ok val, s)
      else (case AssignVar_loop (a # parent) name val s of
              Some s' \<Rightarrow> (Ok val, s')
            | None \<Rightarrow> (Ok val, setVariable a name val s)))"

fun LookupVar :: "env_ptr \<Rightarrow> string \<Rightarrow> State \<Rightarrow> RuntimeValue" where
  "LookupVar [] name s = UndefinedValue"
| "LookupVar (a # parent) name s =
     (case variables (frames s a) name of
        Some val \<Rightarrow> val
      | None \<Rightarrow> LookupVar parent name s)"

fun HasVar :: "env_ptr \<Rightarrow> string \<Rightarrow> State \<Rightarrow> bool" where
  "HasVar [] name s = False"
| "HasVar (a # parent) name s =
     (if variables (frames s a) name \<noteq> None then True else HasVar parent name s)"

section \<open>Evaluator (interpreter.go)\<close>

text \<open>
  \<^verbatim>\<open>Evaluate\<close> and the functions it dispatches to are mutually recursive and need not
  terminate (a \<^verbatim>\<open>while\<close> loop, a recursive function of the interpreted program), so
  \<^verbatim>\<open>Evaluate\<close> takes fuel: one unit for each nested call of \<^verbatim>\<open>Evaluate\<close> and for
  each iteration of a \<^verbatim>\<open>while\<close> or \<^verbatim>\<open>for\<close> loop.  Each \<^verbatim>\<open>evaluateX\<close> below
  is the body of the source function of that name; where the source calls
  \<^verbatim>\<open>Evaluate(node, env)\<close> it calls its argument \<open>ev\<close>, which \<^verbatim>\<open>Evaluate\<close>
  instantiates with itself at the remaining fuel.  A result is a value, an error value,
  a Go runtime panic (which no function of the source recovers), or the end of the fuel;
  it comes with the store as the call left it.

  A runtime value of the model is never the nil interface: every function of the
  repository that returns a nil value returns an error with it.
\<close>

type_synonym evaluator = "Statement \<Rightarrow> env_ptr \<Rightarrow> State \<Rightarrow> RuntimeValue result \<times> State"

primrec evaluateProgram_loop ::
  "evaluator \<Rightarrow> Statement list \<Rightarrow> env_ptr \<Rightarrow> RuntimeValue \<Rightarrow> State \<Rightarrow> RuntimeValue result \<times> State" where
  "evaluateProgram_loop ev [] env lastEvaluated s = (Ok lastEvaluated, s)"
| "evaluateProgram_loop ev (statement # rest) env lastEvaluated s =
     andThen (ev statement env s) (\<lambda>res s'. evaluateProgram_loop ev rest env res s')"

definition evaluateProgram ::
  "evaluator \<Rightarrow> Statement list \<Rightarrow> env_ptr \<Rightarrow> State \<Rightarrow> RuntimeValue result \<times> State" where
  "evaluateProgram ev body env s = evaluateProgram_loop ev body env VoidValue s"

definition interpolate ::
  "host \<Rightarrow> State \<Rightarrow> (string \<rightharpoonup> RuntimeValue) \<Rightarrow> string \<Rightarrow> string \<Rightarrow> string" where
  "interpolate H s vars res name =
     (case vars name of
        None \<Rightarrow> res
      | Some val \<Rightarrow>
          (if Contains res (''{'' @ name @ ''}'') then
             (case val of
                StringValue v \<Rightarrow> ReplaceAll res (''{'' @ name @ ''}'') v
              | _ \<Rightarrow> ReplaceAll res (''{'' @ name @ ''}'') (String H s val))
           else res))"

definition evaluateStringLiteral ::
  "host \<Rightarrow> string \<Rightarrow> env_ptr \<Rightarrow> State \<Rightarrow> RuntimeValue result \<times> State" where
  "evaluateStringLiteral H val env s =
     (if Contains val ''{'' then
        (case env of
           [] \<Rightarrow> (Panic nilDereference, s)
         | a # parent \<Rightarrow>
             (Ok (StringValue
                    (foldl (interpolate H s (variables (frames s a))) val
                       (rangeOrder H (variables (frames s a))))), s))
      else (Ok (StringValue val), s))"

definition evaluateIdentifier :: "string \<Rightarrow> env_ptr \<Rightarrow> State \<Rightarrow> RuntimeValue result \<times> State" where
  "evaluateIdentifier name env s = (Ok (LookupVar env name s), s)"

primrec evaluateAll ::
  "evaluator \<Rightarrow> Statement list \<Rightarrow> env_ptr \<Rightarrow> State \<Rightarrow> RuntimeValue list result \<times> State" where
  "evaluateAll ev [] env s = (Ok [], s)"
| "evaluateAll ev (elem # rest) env s =
     andThen (ev elem env s) (\<lambda>val s'.
       andThen (evaluateAll ev rest env s') (\<lambda>vals s''. (Ok (val # vals), s'')))"

definition evaluateArrayLiteral ::
  "evaluator \<Rightarrow> Statement list \<Rightarrow> env_ptr \<Rightarrow> State \<Rightarrow> RuntimeValue result \<times> State" where
  "evaluateArrayLiteral ev elements env s =
     andThen (evaluateAll ev elements env s) (\<lambda>vals s'.
       case MakeArray vals s' of (arr, s'') \<Rightarrow> (Ok arr, s''))"

primrec evaluateProperties ::
  "evaluator \<Rightarrow> (string \<times> Statement) list \<Rightarrow> env_ptr \<Rightarrow> (string \<times> RuntimeValue) list
     \<Rightarrow> State \<Rightarrow> (string \<times> RuntimeValue) list result \<times> State" where
  "evaluateProperties ev [] env properties s = (Ok properties, s)"
| "evaluateProperties ev (prop # rest) env properties s =
     andThen (ev (snd prop) env s) (\<lambda>val s'.
       evaluateProperties ev rest env (AList.update (fst prop) val properties) s')"

definition evaluateObjectLiteral ::
  "evaluator \<Rightarrow> (string \<times> Statement) list \<Rightarrow> env_ptr \<Rightarrow> State \<Rightarrow> RuntimeValue result \<times> State" where
  "evaluateObjectLiteral ev props env s =
     andThen (evaluateProperties ev props env [] s) (\<lambda>properties s'.
       case MakeObject properties s' of (obj, s'') \<Rightarrow> (Ok obj, s''))"

definition operandString :: "host \<Rightarrow> State \<Rightarrow> RuntimeValue \<Rightarrow> string" where
  "operandString H s v = (case v of StringValue x \<Rightarrow> x | _ \<Rightarrow> String H s v)"

definition evaluateBinaryOperation ::
  "host \<Rightarrow> State \<Rightarrow> RuntimeValue \<Rightarrow> RuntimeValue \<Rightarrow> string \<Rightarrow> RuntimeValue result" where
  "evaluateBinaryOperation H s left right operator =
     (case (case (left, right) of
              (NumberValue leftVal, NumberValue rightVal) \<Rightarrow>
                (if operator = ''+'' then Some (floatBinary H ''+'' leftVal rightVal)
                 else if operator = ''-'' then Some (floatBinary H ''-'' leftVal rightVal)
                 else if operator = ''*'' then Some (floatBinary H ''*'' leftVal rightVal)
                 else if operator = ''/'' then
                   (if floatEq rightVal (Finite 0) then Some PosInf
                    else Some (floatBinary H ''/'' leftVal rightVal))
                 else if operator = ''%'' then Some (floatBinary H ''%'' leftVal rightVal)
                 else if operator = ''**'' then Some (floatBinary H ''**'' leftVal rightVal)
                 else None)
            | _ \<Rightarrow> None) of
        Some v \<Rightarrow> Ok (NumberValue v)
      | None \<Rightarrow>
          (if operator = ''+'' \<and> (TypeOf left = STRING_TYPE \<or> TypeOf right = STRING_TYPE)
           then Ok (StringValue (operandString H s left @ operandString H s right))
           else Err (RuntimeError (''unsupported binary operation: '' @ TypeOf left @ '' ''
                                     @ operator @ '' '' @ TypeOf right))))"

definition evaluateBinaryExpression ::
  "host \<Rightarrow> evaluator \<Rightarrow> Statement \<Rightarrow> Statement \<Rightarrow> string \<Rightarrow> env_ptr \<Rightarrow> State
     \<Rightarrow> RuntimeValue result \<times> State" where
  "evaluateBinaryExpression H ev left right operator env s =
     andThen (ev left env s) (\<lambda>l s1.
       andThen (ev right env s1) (\<lambda>r s2. (evaluateBinaryOperation H s2 l r operator, s2)))"

definition stepIdentifier ::
  "host \<Rightarrow> string \<Rightarrow> string \<Rightarrow> bool \<Rightarrow> string \<Rightarrow> Statement \<Rightarrow> env_ptr \<Rightarrow> State
     \<Rightarrow> RuntimeValue result \<times> State" where
  "stepIdentifier H op notIdentifier returnOld notNumber node env s =
     (case node of
        Identifier name \<Rightarrow>
          (case LookupVar env name s of
             NumberValue oldVal \<Rightarrow>
               andThen (AssignVar env name (NumberValue (floatBinary H op oldVal (Finite 1))) s)
                 (\<lambda>assigned s'.
                    (Ok (NumberValue (if returnOld then oldVal
                                      else floatBinary H op oldVal (Finite 1))), s'))
           | _ \<Rightarrow> (Err (RuntimeError notNumber), s))
      | _ \<Rightarrow> (Err (RuntimeError notIdentifier), s))"

definition evaluateUnaryExpression ::
  "host \<Rightarrow> evaluator \<Rightarrow> Statement \<Rightarrow> string \<Rightarrow> env_ptr \<Rightarrow> State \<Rightarrow> RuntimeValue result \<times> State" where
  "evaluateUnaryExpression H ev node operator env s =
     (if operator = ''++_post'' \<or> operator = ''--_post'' then
        stepIdentifier H (if operator = ''++_post'' then ''+'' else ''-'')
          ''postfix operator only valid on identifiers'' True
          (''cannot apply '' @ take 2 operator @ '' to non-number variable'') node env s
      else if operator = ''!'' then
        andThen (ev node env s) (\<lambda>val s'. (Ok (BooleanValue (\<not> IsTruthy s' val)), s'))
      else if operator = ''-'' then
        andThen (ev node env s) (\<lambda>val s'.
          case val of
            NumberValue v \<Rightarrow> (Ok (NumberValue (floatNeg v)), s')
          | _ \<Rightarrow> (Err (RuntimeError ''cannot negate non-number value''), s'))
      else if operator = ''+'' then
        andThen (ev node env s) (\<lambda>val s'.
          case val of
            NumberValue v \<Rightarrow> (Ok val, s')
          | _ \<Rightarrow> (Err (RuntimeError ''cannot apply unary plus to non-number value''), s'))
      else if operator = ''++'' then
        stepIdentifier H ''+'' ''prefix ++ only valid on identifiers'' False
          ''cannot increment non-number variable'' node env s
      else if operator = ''--'' then
        stepIdentifier H ''-'' ''prefix -- only valid on identifiers'' False
          ''cannot decrement non-number variable'' node env s
      else (Err (RuntimeError (''unsupported unary operator: '' @ operator)), s))"

definition assignMember ::
  "host \<Rightarrow> RuntimeValue \<Rightarrow> RuntimeValue \<Rightarrow> RuntimeValue \<Rightarrow> State \<Rightarrow> RuntimeValue result \<times> State" where
  "assignMember H object property val s =
     (case object of
        ObjectValue a \<Rightarrow>
          (case property of
             StringValue str \<Rightarrow> (Ok val, s\<lparr>objects := (objects s)(a := AList.update str val (objects s a))\<rparr>)
           | NumberValue n \<Rightarrow>
               (Ok val,
                s\<lparr>objects := (objects s)(a := AList.update (FormatFloat H n) val (objects s a))\<rparr>)
           | _ \<Rightarrow> (Panic ''interface conversion: RuntimeValue is not *NumberValue'', s))
      | ArrayValue a \<Rightarrow>
          (case property of
             NumberValue n \<Rightarrow>
               (if 0 \<le> toInt H n \<and> toInt H n < int (length (arrays s a))
                then (Ok val, s\<lparr>arrays := (arrays s)(a := (arrays s a)[nat (toInt H n) := val])\<rparr>)
                else (Panic ''index out of range'', s))
           | _ \<Rightarrow> (Panic ''interface conversion: RuntimeValue is not *NumberValue'', s))
      | _ \<Rightarrow> (Err (RuntimeError (''cannot assign to non-object ('' @ TypeOf object @ '')'')), s))"

definition evaluateAssignmentExpression ::
  "host \<Rightarrow> evaluator \<Rightarrow> Statement \<Rightarrow> Statement \<Rightarrow> env_ptr \<Rightarrow> State \<Rightarrow> RuntimeValue result \<times> State" where
  "evaluateAssignmentExpression H ev assigne valueNode env s =
     (case assigne of
        Identifier name \<Rightarrow>
          andThen (ev valueNode env s) (\<lambda>val s'.
            if HasVar env name s' then AssignVar env name val s'
            else DeclareVar env name val False s')
      | MemberExpr objectNode propertyNode computed \<Rightarrow>
          andThen (ev objectNode env s) (\<lambda>object s1.
            andThen (case propertyNode of
                       Identifier ident \<Rightarrow> (Ok (StringValue ident), s1)
                     | _ \<Rightarrow> ev propertyNode env s1) (\<lambda>property s2.
              andThen (ev valueNode env s2) (\<lambda>val s3. assignMember H object property val s3)))
      | _ \<Rightarrow> (Err (RuntimeError ''invalid assignment target''), s))"

definition evaluateActionAssignmentExpression ::
  "evaluator \<Rightarrow> Statement \<Rightarrow> Statement \<Rightarrow> string \<Rightarrow> env_ptr \<Rightarrow> State \<Rightarrow> RuntimeValue result \<times> State" where
  "evaluateActionAssignmentExpression ev assigne valueNode action env s =
     (case assigne of
        Identifier name \<Rightarrow>
          andThen (ev valueNode env s) (\<lambda>val s'.
            if action = ''const'' then DeclareVar env name val True s'
            else if action = ''var'' then DeclareVar env name val False s'
            else if action = ''out'' then DeclareVar env name val False s'
            else (Err (RuntimeError (''unsupported action: '' @ action)), s'))
      | _ \<Rightarrow> (Err (RuntimeError ''invalid assignment target''), s))"

fun Error :: "error \<Rightarrow> string" where
  "Error (UnexpectedCharacter c l col) = ''unexpected character''"
| "Error UnterminatedString = ''unterminated string''"
| "Error (ParseError msg) = msg"
| "Error (ParseErrorAt msg tok) = msg"
| "Error (NumError msg) = msg"
| "Error (RuntimeError msg) = msg"

primrec bindParameters ::
  "evaluator \<Rightarrow> Parameter list \<Rightarrow> RuntimeValue list \<Rightarrow> env_ptr \<Rightarrow> env_ptr \<Rightarrow> State
     \<Rightarrow> RuntimeValue result \<times> State" where
  "bindParameters ev [] args declarationEnv fnEnv s = (Ok VoidValue, s)"
| "bindParameters ev (param # rest) args declarationEnv fnEnv s =
     (case param of Parameter name defaultValue \<Rightarrow>
        andThen
          (case args of
             arg # others \<Rightarrow> (Ok arg, s)
           | [] \<Rightarrow>
               (case defaultValue of
                  Some d \<Rightarrow>
                    (case ev d declarationEnv s of
                       (Err e, s') \<Rightarrow>
                         (Err (RuntimeError (''error evaluating default parameter '' @ name
                                               @ '': '' @ Error e)), s')
                     | other \<Rightarrow> other)
                | None \<Rightarrow> (Ok UndefinedValue, s)))
          (\<lambda>val s'.
             andThen (DeclareVar fnEnv name val False s') (\<lambda>declared s''.
               bindParameters ev rest (tl args) declarationEnv fnEnv s'')))"

text \<open>
  The loop over the statements of a body, which the source writes out five times (in
  \<^verbatim>\<open>callFunction\<close>, twice in \<^verbatim>\<open>evaluateIfStatement\<close>, in
  \<^verbatim>\<open>evaluateWhileStatement\<close> and in \<^verbatim>\<open>evaluateForStatement\<close>): a statement
  whose value has the type tag \<^verbatim>\<open>return\<close> ends the loop with that value (\<open>Inl\<close>);
  otherwise the value becomes \<^verbatim>\<open>result\<close>, and the loop ends with the last
  \<^verbatim>\<open>result\<close> (\<open>Inr\<close>).
\<close>

primrec executeStatements ::
  "evaluator \<Rightarrow> Statement list \<Rightarrow> env_ptr \<Rightarrow> RuntimeValue \<Rightarrow> State
     \<Rightarrow> (RuntimeValue + RuntimeValue) result \<times> State" where
  "executeStatements ev [] env res s = (Ok (Inr res), s)"
| "executeStatements ev (stmt # rest) env res s =
     andThen (ev stmt env s) (\<lambda>val s'.
       if TypeOf val = RETURN_TYPE then (Ok (Inl val), s')
       else executeStatements ev rest env val s')"

definition callFunction ::
  "evaluator \<Rightarrow> RuntimeValue \<Rightarrow> RuntimeValue list \<Rightarrow> env_ptr \<Rightarrow> State \<Rightarrow> RuntimeValue result \<times> State" where
  "callFunction ev fn args env s =
     (case fn of
        FunctionValue name parameters body declarationEnv export anonymous \<Rightarrow>
          (case NewEnvironment declarationEnv s of
             (fnEnv, s0) \<Rightarrow>
               andThen (bindParameters ev parameters args declarationEnv fnEnv s0) (\<lambda>bound s1.
                 andThen (executeStatements ev body fnEnv VoidValue s1) (\<lambda>r s2.
                   case r of
                     Inl (ReturnValue val) \<Rightarrow> (Ok val, s2)
                   | Inl val \<Rightarrow> (Ok val, s2)
                   | Inr res \<Rightarrow> (Ok res, s2))))
      | _ \<Rightarrow> (Panic nilDereference, s))"

definition evaluateCallExpression ::
  "host \<Rightarrow> evaluator \<Rightarrow> Statement \<Rightarrow> Statement list \<Rightarrow> env_ptr \<Rightarrow> State
     \<Rightarrow> RuntimeValue result \<times> State" where
  "evaluateCallExpression H ev caller argNodes env s =
     andThen (ev caller env s) (\<lambda>fn s1.
       andThen (evaluateAll ev argNodes env s1) (\<lambda>args s2.
         case fn of
           FunctionValue name parameters body declarationEnv export anonymous \<Rightarrow>
             callFunction ev fn args env s2
         | NativeFunctionValue name call \<Rightarrow> nativeCall H name call args env s2
         | _ \<Rightarrow> (Err (RuntimeError ''cannot call non-function value''), s2)))"

definition prototypeLookup :: "RuntimeValue \<Rightarrow> string \<Rightarrow> RuntimeValue" where
  "prototypeLookup object key =
     (case find (\<lambda>protoFn. case protoFn of NativeFunctionValue name call \<Rightarrow> name = key
                            | _ \<Rightarrow> False) (Prototypes object) of
        Some protoFn \<Rightarrow> protoFn
      | None \<Rightarrow> UndefinedValue)"

definition memberLookup :: "State \<Rightarrow> RuntimeValue \<Rightarrow> string \<Rightarrow> RuntimeValue" where
  "memberLookup s object key =
     (case object of
        ArrayValue a \<Rightarrow>
          (case Atoi key of
             Some i \<Rightarrow>
               (if 0 \<le> i \<and> i < int (length (arrays s a)) then arrays s a ! nat i
                else prototypeLookup object key)
           | None \<Rightarrow> prototypeLookup object key)
      | ObjectValue a \<Rightarrow>
          (case map_of (objects s a) key of
             Some val \<Rightarrow> val
           | None \<Rightarrow> prototypeLookup object key)
      | _ \<Rightarrow> prototypeLookup object key)"

definition evaluateMemberExpression ::
  "host \<Rightarrow> evaluator \<Rightarrow> Statement \<Rightarrow> Statement \<Rightarrow> bool \<Rightarrow> env_ptr \<Rightarrow> State
     \<Rightarrow> RuntimeValue result \<times> State" where
  "evaluateMemberExpression H ev objectNode propertyNode computed env s =
     andThen (ev objectNode env s) (\<lambda>object s1.
       andThen
         (if computed then
            andThen (ev propertyNode env s1) (\<lambda>prop s2.
              case prop of
                StringValue v \<Rightarrow> (Ok v, s2)
              | NumberValue v \<Rightarrow> (Ok (FormatFloat H v), s2)
              | _ \<Rightarrow> (Err (RuntimeError ''invalid property key type''), s2))
          else
            (case propertyNode of
               Identifier ident \<Rightarrow> (Ok ident, s1)
             | _ \<Rightarrow> (Err (RuntimeError ''invalid property access''), s1)))
         (\<lambda>key s2. (Ok (memberLookup s2 object key), s2)))"

definition evaluateTernaryExpression ::
  "evaluator \<Rightarrow> Statement \<Rightarrow> Statement \<Rightarrow> Statement \<Rightarrow> env_ptr \<Rightarrow> State
     \<Rightarrow> RuntimeValue result \<times> State" where
  "evaluateTernaryExpression ev condition consequent alternate env s =
     andThen (ev condition env s) (\<lambda>cond s'.
       if IsTruthy s' cond then ev consequent env s' else ev alternate env s')"

definition evaluateTypeofExpression ::
  "evaluator \<Rightarrow> Statement \<Rightarrow> env_ptr \<Rightarrow> State \<Rightarrow> RuntimeValue result \<times> State" where
  "evaluateTypeofExpression ev node env s =
     andThen (ev node env s) (\<lambda>val s'. (Ok (StringValue (TypeOf val)), s'))"

definition isEqual :: "RuntimeValue \<Rightarrow> RuntimeValue \<Rightarrow> bool" where
  "isEqual left right =
     (if TypeOf left \<noteq> TypeOf right then False
      else (case (left, right) of
              (NumberValue a, NumberValue b) \<Rightarrow> floatEq a b
            | (BooleanValue a, BooleanValue b) \<Rightarrow> a = b
            | (StringValue a, StringValue b) \<Rightarrow> a = b
            | (NullValue, _) \<Rightarrow> True
            | (UndefinedValue, _) \<Rightarrow> True
            | (VoidValue, _) \<Rightarrow> True
            | _ \<Rightarrow> False))"

definition evaluateEqualityExpression ::
  "evaluator \<Rightarrow> Statement \<Rightarrow> Statement \<Rightarrow> string \<Rightarrow> env_ptr \<Rightarrow> State
     \<Rightarrow> RuntimeValue result \<times> State" where
  "evaluateEqualityExpression ev left right operator env s =
     andThen (ev left env s) (\<lambda>l s1.
       andThen (ev right env s1) (\<lambda>r s2.
         if operator = ''=='' then (Ok (BooleanValue (isEqual l r)), s2)
         else if operator = ''!='' then (Ok (BooleanValue (\<not> isEqual l r)), s2)
         else (Err (RuntimeError (''unsupported equality operator: '' @ operator)), s2)))"

definition evaluateInequalityExpression ::
  "evaluator \<Rightarrow> Statement \<Rightarrow> Statement \<Rightarrow> string \<Rightarrow> env_ptr \<Rightarrow> State
     \<Rightarrow> RuntimeValue result \<times> State" where
  "evaluateInequalityExpression ev left right operator env s =
     andThen (ev left env s) (\<lambda>l s1.
       andThen (ev right env s1) (\<lambda>r s2.
         case (l, r) of
           (NumberValue leftVal, NumberValue rightVal) \<Rightarrow>
             (if operator = ''<'' then (Ok (BooleanValue (floatLess leftVal rightVal)), s2)
              else if operator = ''>'' then (Ok (BooleanValue (floatLess rightVal leftVal)), s2)
              else if operator = ''<='' then
                (Ok (BooleanValue (floatLess leftVal rightVal \<or> floatEq leftVal rightVal)), s2)
              else if operator = ''>='' then
                (Ok (BooleanValue (floatLess rightVal leftVal \<or> floatEq leftVal rightVal)), s2)
              else (Err (RuntimeError (''unsupported inequality operator: '' @ operator)), s2))
         | _ \<Rightarrow> (Err (RuntimeError ''cannot compare non-numeric values''), s2)))"

definition evaluateLogicalExpression ::
  "evaluator \<Rightarrow> Statement \<Rightarrow> Statement \<Rightarrow> string \<Rightarrow> env_ptr \<Rightarrow> State
     \<Rightarrow> RuntimeValue result \<times> State" where
  "evaluateLogicalExpression ev left right operator env s =
     andThen (ev left env s) (\<lambda>l s'.
       if operator = ''&&'' then (if \<not> IsTruthy s' l then (Ok l, s') else ev right env s')
       else if operator = ''||'' then (if IsTruthy s' l then (Ok l, s') else ev right env s')
       else (Err (RuntimeError (''unsupported logical operator: '' @ operator)), s'))"

definition evaluateFunctionDeclaration ::
  "string \<Rightarrow> Parameter list \<Rightarrow> Statement list \<Rightarrow> bool \<Rightarrow> env_ptr \<Rightarrow> State
     \<Rightarrow> RuntimeValue result \<times> State" where
  "evaluateFunctionDeclaration name parameters body export env s =
     (if name \<noteq> [] then
        andThen (DeclareVar env name (FunctionValue name parameters body env export False) True s)
          (\<lambda>declared s'. (Ok (FunctionValue name parameters body env export False), s'))
      else (Ok (FunctionValue name parameters body env export True), s))"

definition finishBlock ::
  "(RuntimeValue + RuntimeValue) result \<times> State \<Rightarrow> RuntimeValue result \<times> State" where
  "finishBlock m = andThen m (\<lambda>r s. case r of Inl val \<Rightarrow> (Ok val, s) | Inr res \<Rightarrow> (Ok res, s))"

definition evaluateIfStatement ::
  "evaluator \<Rightarrow> Statement \<Rightarrow> Statement list \<Rightarrow> Statement list \<Rightarrow> env_ptr \<Rightarrow> State
     \<Rightarrow> RuntimeValue result \<times> State" where
  "evaluateIfStatement ev test consequent alternate env s =
     andThen (ev test env s) (\<lambda>condition s'.
       if IsTruthy s' condition then finishBlock (executeStatements ev consequent env VoidValue s')
       else if length alternate > 0 then
         finishBlock (executeStatements ev alternate env VoidValue s')
       else (Ok VoidValue, s'))"

primrec evaluateWhileStatement_loop ::
  "nat \<Rightarrow> evaluator \<Rightarrow> Statement \<Rightarrow> Statement list \<Rightarrow> env_ptr \<Rightarrow> RuntimeValue \<Rightarrow> State
     \<Rightarrow> RuntimeValue result \<times> State" where
  "evaluateWhileStatement_loop 0 ev test body env res s = (OutOfFuel, s)"
| "evaluateWhileStatement_loop (Suc k) ev test body env res s =
     andThen (ev test env s) (\<lambda>condition s1.
       if \<not> IsTruthy s1 condition then (Ok res, s1)
       else andThen (executeStatements ev body env res s1) (\<lambda>r s2.
              case r of
                Inl val \<Rightarrow> (Ok val, s2)
              | Inr res' \<Rightarrow> evaluateWhileStatement_loop k ev test body env res' s2))"

definition evaluateWhileStatement ::
  "nat \<Rightarrow> evaluator \<Rightarrow> Statement \<Rightarrow> Statement list \<Rightarrow> env_ptr \<Rightarrow> State
     \<Rightarrow> RuntimeValue result \<times> State" where
  "evaluateWhileStatement fuel ev test body env s =
     evaluateWhileStatement_loop fuel ev test body env VoidValue s"

primrec evaluateForStatement_loop ::
  "nat \<Rightarrow> evaluator \<Rightarrow> Statement \<Rightarrow> Statement \<Rightarrow> Statement list \<Rightarrow> env_ptr \<Rightarrow> RuntimeValue
     \<Rightarrow> State \<Rightarrow> RuntimeValue result \<times> State" where
  "evaluateForStatement_loop 0 ev test increaser body forEnv res s = (OutOfFuel, s)"
| "evaluateForStatement_loop (Suc k) ev test increaser body forEnv res s =
     andThen (ev test forEnv s) (\<lambda>condition s1.
       if \<not> IsTruthy s1 condition then (Ok res, s1)
       else andThen (executeStatements ev body forEnv res s1) (\<lambda>r s2.
              case r of
                Inl val \<Rightarrow> (Ok val, s2)
              | Inr res' \<Rightarrow>
                  andThen (ev increaser forEnv s2) (\<lambda>increased s3.
                    evaluateForStatement_loop k ev test increaser body forEnv res' s3)))"

definition evaluateForStatement ::
  "nat \<Rightarrow> evaluator \<Rightarrow> Statement \<Rightarrow> Statement \<Rightarrow> Statement \<Rightarrow> Statement list \<Rightarrow> env_ptr
     \<Rightarrow> State \<Rightarrow> RuntimeValue result \<times> State" where
  "evaluateForStatement fuel ev declaration test increaser body env s =
     (case NewEnvironment env s of
        (forEnv, s0) \<Rightarrow>
          andThen (ev declaration forEnv s0) (\<lambda>declared s1.
            evaluateForStatement_loop fuel ev test increaser body forEnv VoidValue s1))"

definition evaluateDebugStatement ::
  "evaluator \<Rightarrow> Statement list \<Rightarrow> env_ptr \<Rightarrow> State \<Rightarrow> RuntimeValue result \<times> State" where
  "evaluateDebugStatement ev props env s =
     andThen (evaluateAll ev props env s) (\<lambda>vals s'. (Ok VoidValue, s'))"

primrec Evaluate :: "host \<Rightarrow> nat \<Rightarrow> Statement \<Rightarrow> env_ptr \<Rightarrow> State \<Rightarrow> RuntimeValue result \<times> State" where
  "Evaluate H 0 node env s = (OutOfFuel, s)"
| "Evaluate H (Suc n) node env s =
     (case node of
        Program body \<Rightarrow> evaluateProgram (Evaluate H n) body env s
      | NumericLiteral v \<Rightarrow> (Ok (NumberValue v), s)
      | StringLiteral v \<Rightarrow> evaluateStringLiteral H v env s
      | BooleanLiteral v \<Rightarrow> (Ok (BooleanValue v), s)
      | UndefinedLiteral \<Rightarrow> (Ok UndefinedValue, s)
      | NullLiteral \<Rightarrow> (Ok NullValue, s)
      | Identifier v \<Rightarrow> evaluateIdentifier v env s
      | ArrayLiteral elements \<Rightarrow> evaluateArrayLiteral (Evaluate H n) elements env s
      | ObjectLiteral props \<Rightarrow> evaluateObjectLiteral (Evaluate H n) props env s
      | BinaryExpr left right operator \<Rightarrow>
          evaluateBinaryExpression H (Evaluate H n) left right operator env s
      | UnaryExpr v operator \<Rightarrow> evaluateUnaryExpression H (Evaluate H n) v operator env s
      | AssignmentExpr assigne v \<Rightarrow> evaluateAssignmentExpression H (Evaluate H n) assigne v env s
      | ActionAssignmentExpr assigne v action actionArgs \<Rightarrow>
          evaluateActionAssignmentExpression (Evaluate H n) assigne v action env s
      | CallExpr caller args \<Rightarrow> evaluateCallExpression H (Evaluate H n) caller args env s
      | MemberExpr object property computed \<Rightarrow>
          evaluateMemberExpression H (Evaluate H n) object property computed env s
      | TernaryExpr condition consequent alternate \<Rightarrow>
          evaluateTernaryExpression (Evaluate H n) condition consequent alternate env s
      | TypeofExpr v \<Rightarrow> evaluateTypeofExpression (Evaluate H n) v env s
      | EqualityExpr left right operator \<Rightarrow>
          evaluateEqualityExpression (Evaluate H n) left right operator env s
      | InequalityExpr left right operator \<Rightarrow>
          evaluateInequalityExpression (Evaluate H n) left right operator env s
      | LogicalExpr left right operator \<Rightarrow>
          evaluateLogicalExpression (Evaluate H n) left right operator env s
      | FunctionDeclaration name parameters body export \<Rightarrow>
          evaluateFunctionDeclaration name parameters body export env s
      | IfStatement test consequent alternate \<Rightarrow>
          evaluateIfStatement (Evaluate H n) test consequent alternate env s
      | WhileStatement test consequent \<Rightarrow>
          evaluateWhileStatement n (Evaluate H n) test consequent env s
      | ForStatement declaration test increaser body \<Rightarrow>
          evaluateForStatement n (Evaluate H n) declaration test increaser body env s
      | ReturnExpr v \<Rightarrow>
          andThen (Evaluate H n v env s) (\<lambda>val s'. (Ok (ReturnValue val), s'))
      | DebugStatement props \<Rightarrow> evaluateDebugStatement (Evaluate H n) props env s
      | UseStatement path \<Rightarrow>
          (Err (RuntimeError ''unsupported AST node: *main.UseStatement''), s))"

section \<open>Parser (parser.go)\<close>

text \<open>
  The parser is a recursive descent over the token list; a parse function returns its
  node and the parser state after it, or an error.  The functions are mutually
  recursive, so the model bounds the depth of the recursion by fuel: a call that closes a
  cycle of the call graph (a recursive call, the next iteration of a loop) goes through
  the table \<open>P\<close> of the parse functions at the remaining fuel, which \<open>parsers\<close>
  builds; every other call is direct.  With enough fuel the result is the one the source
  computes.
\<close>

record Parser =
  tokens :: "Token list"
  position :: nat
  code :: string

definition NewParser :: "Token list \<Rightarrow> string \<Rightarrow> Parser" where
  "NewParser toks src = \<lparr>tokens = toks, position = 0, code = src\<rparr>"

definition atToken :: "Parser \<Rightarrow> Token" where
  "atToken p = (if position p \<ge> length (tokens p)
           then \<lparr>Type = EOF, Value = [], Position = \<lparr>Line = 0, Column = 0, Index = 0\<rparr>\<rparr>
           else tokens p ! position p)"

definition eat :: "Parser \<Rightarrow> Token \<times> Parser" where
  "eat p = (atToken p, p\<lparr>position := position p + 1\<rparr>)"

definition skip :: "Parser \<Rightarrow> Parser" where
  "skip p = snd (eat p)"

definition isEOF :: "Parser \<Rightarrow> bool" where
  "isEOF p = (Type (atToken p) = EOF)"

type_synonym 'a parsed = "('a \<times> Parser) result"

definition thenParse :: "'a parsed \<Rightarrow> ('a \<Rightarrow> Parser \<Rightarrow> 'b parsed) \<Rightarrow> 'b parsed" where
  "thenParse m f = (case m of
       Ok (v, p) \<Rightarrow> f v p
     | Err e \<Rightarrow> Err e
     | Panic msg \<Rightarrow> Panic msg
     | OutOfFuel \<Rightarrow> OutOfFuel)"

definition formatError :: "string \<Rightarrow> Token \<Rightarrow> 'a parsed" where
  "formatError message token = Err (ParseErrorAt message token)"

record Parsers =
  pStatement :: "Parser \<Rightarrow> Statement option parsed"
  pExpression :: "Parser \<Rightarrow> Statement parsed"
  pTernaryExpression :: "Parser \<Rightarrow> Statement parsed"
  pUnaryExpression :: "Parser \<Rightarrow> Statement parsed"
  pIfStatement :: "Parser \<Rightarrow> Statement parsed"
  pCallExpression :: "Statement \<Rightarrow> Parser \<Rightarrow> Statement parsed"
  pLogicalLoop :: "Statement \<Rightarrow> Parser \<Rightarrow> Statement parsed"
  pEqualityLoop :: "Statement \<Rightarrow> Parser \<Rightarrow> Statement parsed"
  pInequalityLoop :: "Statement \<Rightarrow> Parser \<Rightarrow> Statement parsed"
  pAdditiveLoop :: "Statement \<Rightarrow> Parser \<Rightarrow> Statement parsed"
  pMultiplicativeLoop :: "Statement \<Rightarrow> Parser \<Rightarrow> Statement parsed"
  pMemberLoop :: "Statement \<Rightarrow> Parser \<Rightarrow> Statement parsed"
  pExpressionList :: "Statement list \<Rightarrow> Parser \<Rightarrow> Statement list parsed"
  pPropertyList :: "(string \<times> Statement) list \<Rightarrow> Parser \<Rightarrow> (string \<times> Statement) list parsed"
  pParameterLoop :: "Parameter list \<Rightarrow> Parser \<Rightarrow> Parameter list parsed"
  pBlock :: "Statement list \<Rightarrow> Parser \<Rightarrow> Statement list parsed"
  pProgramLoop :: "Statement list \<Rightarrow> Parser \<Rightarrow> Statement parsed"

definition parseUseStatement :: "Parser \<Rightarrow> Statement parsed" where
  "parseUseStatement p =
     (if Type (atToken (skip p)) \<noteq> STRING then Err (ParseError ''expected string after use'')
      else Ok (UseStatement (Value (atToken (skip p))), skip (skip p)))"

text \<open>
  The loop \<^verbatim>\<open>for { expr := parseExpression(); append; if COMMA { eat } else { break } }\<close>
  of \<^verbatim>\<open>parseCallExpression\<close>, \<^verbatim>\<open>parseArrayLiteral\<close> and
  \<^verbatim>\<open>parseDebugStatement\<close>.
\<close>

definition parseExpressionList :: "Parsers \<Rightarrow> Statement list \<Rightarrow> Parser \<Rightarrow> Statement list parsed" where
  "parseExpressionList P acc p =
     thenParse (pExpression P p) (\<lambda>expr p1.
       if Type (atToken p1) = COMMA then pExpressionList P (acc @ [expr]) (skip p1)
       else Ok (acc @ [expr], p1))"

definition parseParameterList_loop :: "Parsers \<Rightarrow> Parameter list \<Rightarrow> Parser \<Rightarrow> Parameter list parsed" where
  "parseParameterList_loop P parameters p =
     (if Type (atToken p) = IDENTIFIER then
        (if Type (atToken (skip p)) = EQUALS then
           (if Type (atToken (skip (skip p))) \<noteq> OPEN_PAREN then
              formatError ''expected '(' after '=' in default parameter'' (atToken (skip (skip p)))
            else
              thenParse (pExpression P (skip (skip (skip p)))) (\<lambda>defaultExpr p1.
                if Type (atToken p1) \<noteq> CLOSE_PAREN then
                  formatError ''expected ')' after default parameter value'' (atToken p1)
                else pParameterLoop P
                       (parameters @ [Parameter (Value (atToken p)) (Some defaultExpr)]) (skip p1)))
         else pParameterLoop P (parameters @ [Parameter (Value (atToken p)) None]) (skip p))
      else Ok (parameters, p))"

definition parseParameterList :: "Parsers \<Rightarrow> Parser \<Rightarrow> Parameter list parsed" where
  "parseParameterList P p = parseParameterList_loop P [] p"

text \<open>
  The loop \<^verbatim>\<open>for p.at().Type != CLOSE_BRACE && !p.isEOF() { stmt := parseStatement();
  if stmt != nil { append } }\<close> of every block body.
\<close>

definition parseBlock :: "Parsers \<Rightarrow> Statement list \<Rightarrow> Parser \<Rightarrow> Statement list parsed" where
  "parseBlock P body p =
     (if Type (atToken p) \<noteq> CLOSE_BRACE \<and> \<not> isEOF p then
        thenParse (pStatement P p) (\<lambda>stmt p1.
          pBlock P (case stmt of Some st \<Rightarrow> body @ [st] | None \<Rightarrow> body) p1)
      else Ok (body, p))"

definition parseArrayLiteral :: "Parsers \<Rightarrow> Parser \<Rightarrow> Statement parsed" where
  "parseArrayLiteral P p =
     thenParse (if Type (atToken (skip p)) \<noteq> CLOSE_BRACKET then parseExpressionList P [] (skip p)
                else Ok ([], skip p)) (\<lambda>elements p1.
       if Type (atToken p1) \<noteq> CLOSE_BRACKET then Err (ParseError ''expected ']' after array elements'')
       else Ok (ArrayLiteral elements, skip p1))"

definition parsePropertyList ::
  "Parsers \<Rightarrow> (string \<times> Statement) list \<Rightarrow> Parser \<Rightarrow> (string \<times> Statement) list parsed" where
  "parsePropertyList P properties p =
     (if Type (atToken p) \<noteq> IDENTIFIER \<and> Type (atToken p) \<noteq> STRING then
        Err (ParseError ''expected property name'')
      else
        thenParse
          (if Type (atToken (skip p)) = COMMA \<or> Type (atToken (skip p)) = CLOSE_BRACE then
             Ok (properties @ [(Value (atToken p), Identifier (Value (atToken p)))], skip p)
           else if Type (atToken (skip p)) \<noteq> COLON then
             Err (ParseError ''expected ':' after property name'')
           else
             thenParse (pExpression P (skip (skip p))) (\<lambda>val p1.
               Ok (properties @ [(Value (atToken p), val)], p1)))
          (\<lambda>properties' p1.
             if Type (atToken p1) = COMMA then pPropertyList P properties' (skip p1)
             else Ok (properties', p1)))"

definition parseObjectLiteral :: "Parsers \<Rightarrow> Parser \<Rightarrow> Statement parsed" where
  "parseObjectLiteral P p =
     thenParse (if Type (atToken (skip p)) \<noteq> CLOSE_BRACE then parsePropertyList P [] (skip p)
                else Ok ([], skip p)) (\<lambda>properties p1.
       if Type (atToken p1) \<noteq> CLOSE_BRACE then
         Err (ParseError ''expected '}' after object properties'')
       else Ok (ObjectLiteral properties, skip p1))"

text \<open>
  The body of a function after its parameter list, as \<^verbatim>\<open>parseFunctionExpression\<close> and
  \<^verbatim>\<open>parseFunctionDeclaration\<close> both write it: a block, or a colon and one expression
  that becomes \<^verbatim>\<open>return expr\<close>.
\<close>

definition parseFunctionBody :: "Parsers \<Rightarrow> Parser \<Rightarrow> Statement list parsed" where
  "parseFunctionBody P p =
     (if Type (atToken p) \<noteq> OPEN_BRACE \<and> Type (atToken p) \<noteq> COLON then
        formatError ''expected '{' or ':' after function parameters'' (atToken p)
      else if Type (atToken p) = OPEN_BRACE then
        thenParse (parseBlock P [] (skip p)) (\<lambda>body p1.
          if Type (atToken p1) \<noteq> CLOSE_BRACE then
            formatError ''expected '}' after function body'' (atToken p1)
          else Ok (body, skip p1))
      else
        thenParse (pTernaryExpression P (skip p)) (\<lambda>expr p1. Ok ([ReturnExpr expr], p1)))"

definition parseFunctionExpression :: "Parsers \<Rightarrow> Parser \<Rightarrow> Statement parsed" where
  "parseFunctionExpression P p =
     (if Type (atToken (skip p)) = COLON then
        (if Type (atToken (skip (skip p))) = COLON then
           thenParse (pExpression P (skip (skip (skip p)))) (\<lambda>expr p1.
             Ok (CallExpr (FunctionDeclaration [] [] [ReturnExpr expr] False) [], p1))
         else
           thenParse (parseParameterList P (skip (skip p))) (\<lambda>parameters p1.
             if Type (atToken p1) \<noteq> COLON then
               formatError ''expected ':' after function parameters in anonymous function''
                 (atToken p1)
             else
               thenParse (pTernaryExpression P (skip p1)) (\<lambda>expr p2.
                 Ok (FunctionDeclaration [] parameters [ReturnExpr expr] False, p2))))
      else
        (let named = (Type (atToken p) \<noteq> LAMBDA \<and> Type (atToken (skip p)) = IDENTIFIER) in
         thenParse (parseParameterList P (if named then skip (skip p) else skip p))
           (\<lambda>parameters p1.
              thenParse (parseFunctionBody P p1) (\<lambda>body p2.
                Ok (FunctionDeclaration (if named then Value (atToken (skip p)) else [])
                      parameters body False, p2)))))"

definition parsePrimaryExpression :: "host \<Rightarrow> Parsers \<Rightarrow> Parser \<Rightarrow> Statement parsed" where
  "parsePrimaryExpression H P p =
     (let token = atToken p in
      if Type token = IDENTIFIER then Ok (Identifier (Value token), skip p)
      else if Type token = INT_TOKEN \<or> Type token = FLOAT then
        (case ParseFloat H (Value token) of
           Inl err \<Rightarrow> Err err
         | Inr v \<Rightarrow> Ok (NumericLiteral v, skip p))
      else if Type token = STRING then Ok (StringLiteral (Value token), skip p)
      else if Type token = BOOLEAN then Ok (BooleanLiteral (Value token = ''true''), skip p)
      else if Type token = UNDEFINED then Ok (UndefinedLiteral, skip p)
      else if Type token = TYPEOF then
        thenParse (pUnaryExpression P (skip p)) (\<lambda>val p1. Ok (TypeofExpr val, p1))
      else if Type token = OPEN_PAREN then
        thenParse (pExpression P (skip p)) (\<lambda>expr p1.
          if Type (atToken p1) \<noteq> CLOSE_PAREN then Err (ParseError ''expected ')' after expression'')
          else Ok (expr, skip p1))
      else if Type token = OPEN_BRACKET then parseArrayLiteral P p
      else if Type token = OPEN_BRACE then parseObjectLiteral P p
      else if Type token = FN \<or> Type token = LAMBDA then parseFunctionExpression P p
      else Err (ParseError (''unexpected token: '' @ Value token)))"

definition parseMemberExpression_loop :: "host \<Rightarrow> Parsers \<Rightarrow> Statement \<Rightarrow> Parser \<Rightarrow> Statement parsed" where
  "parseMemberExpression_loop H P object p =
     (if Type (atToken p) = DOT then
        thenParse (parsePrimaryExpression H P (skip p)) (\<lambda>property p1.
          pMemberLoop P (MemberExpr object property False) p1)
      else if Type (atToken p) = OPEN_BRACKET then
        thenParse (pExpression P (skip p)) (\<lambda>property p1.
          if Type (atToken p1) \<noteq> CLOSE_BRACKET then
            Err (ParseError ''expected ']' after computed member access'')
          else pMemberLoop P (MemberExpr object property True) (skip p1))
      else Ok (object, p))"

definition parseMemberExpression :: "host \<Rightarrow> Parsers \<Rightarrow> Parser \<Rightarrow> Statement parsed" where
  "parseMemberExpression H P p =
     thenParse (parsePrimaryExpression H P p) (\<lambda>object p1. parseMemberExpression_loop H P object p1)"

definition parseCallExpression :: "Parsers \<Rightarrow> Statement \<Rightarrow> Parser \<Rightarrow> Statement parsed" where
  "parseCallExpression P caller p =
     thenParse (if Type (atToken (skip p)) \<noteq> CLOSE_PAREN then parseExpressionList P [] (skip p)
                else Ok ([], skip p)) (\<lambda>args p1.
       if Type (atToken p1) \<noteq> CLOSE_PAREN then
         Err (ParseError ''expected ')' after function arguments'')
       else if Type (atToken (skip p1)) = OPEN_PAREN then
         pCallExpression P (CallExpr caller args) (skip p1)
       else Ok (CallExpr caller args, skip p1))"

definition parseCallMemberExpression :: "host \<Rightarrow> Parsers \<Rightarrow> Parser \<Rightarrow> Statement parsed" where
  "parseCallMemberExpression H P p =
     thenParse (parseMemberExpression H P p) (\<lambda>member p1.
       if Type (atToken p1) = OPEN_PAREN then parseCallExpression P member p1
       else Ok (member, p1))"

definition parseUnaryExpression :: "host \<Rightarrow> Parsers \<Rightarrow> Parser \<Rightarrow> Statement parsed" where
  "parseUnaryExpression H P p =
     (if Type (atToken p) = NEGATION_OP \<or> Value (atToken p) = ''+'' \<or> Value (atToken p) = ''-''
         \<or> Type (atToken p) = INCREMENT \<or> Type (atToken p) = DECREMENT then
        thenParse (pUnaryExpression P (skip p)) (\<lambda>val p1. Ok (UnaryExpr val (Value (atToken p)), p1))
      else
        thenParse (parseCallMemberExpression H P p) (\<lambda>expr p1.
          if Type (atToken p1) = INCREMENT \<or> Type (atToken p1) = DECREMENT then
            Ok (UnaryExpr expr (Value (atToken p1) @ ''_post''), skip p1)
          else Ok (expr, p1)))"

definition parseMultiplicativeExpression_loop ::
  "host \<Rightarrow> Parsers \<Rightarrow> Statement \<Rightarrow> Parser \<Rightarrow> Statement parsed" where
  "parseMultiplicativeExpression_loop H P left p =
     (if Value (atToken p) = ''*'' \<or> Value (atToken p) = ''/'' \<or> Value (atToken p) = ''%''
         \<or> Value (atToken p) = ''**'' then
        thenParse (parseUnaryExpression H P (skip p)) (\<lambda>right p1.
          pMultiplicativeLoop P (BinaryExpr left right (Value (atToken p))) p1)
      else Ok (left, p))"

definition parseMultiplicativeExpression :: "host \<Rightarrow> Parsers \<Rightarrow> Parser \<Rightarrow> Statement parsed" where
  "parseMultiplicativeExpression H P p =
     thenParse (parseUnaryExpression H P p) (\<lambda>left p1.
       parseMultiplicativeExpression_loop H P left p1)"

definition parseAdditiveExpression_loop ::
  "host \<Rightarrow> Parsers \<Rightarrow> Statement \<Rightarrow> Parser \<Rightarrow> Statement parsed" where
  "parseAdditiveExpression_loop H P left p =
     (if Value (atToken p) = ''+'' \<or> Value (atToken p) = ''-'' then
        thenParse (parseMultiplicativeExpression H P (skip p)) (\<lambda>right p1.
          pAdditiveLoop P (BinaryExpr left right (Value (atToken p))) p1)
      else Ok (left, p))"

definition parseAdditiveExpression :: "host \<Rightarrow> Parsers \<Rightarrow> Parser \<Rightarrow> Statement parsed" where
  "parseAdditiveExpression H P p =
     thenParse (parseMultiplicativeExpression H P p) (\<lambda>left p1.
       parseAdditiveExpression_loop H P left p1)"

definition parseInequalityExpression_loop ::
  "host \<Rightarrow> Parsers \<Rightarrow> Statement \<Rightarrow> Parser \<Rightarrow> Statement parsed" where
  "parseInequalityExpression_loop H P left p =
     (if Type (atToken p) = SMALLER_THAN \<or> Type (atToken p) = GREATER_THAN
         \<or> Type (atToken p) = SMALLER_OR_EQUAL \<or> Type (atToken p) = GREATER_OR_EQUAL then
        thenParse (parseAdditiveExpression H P (skip p)) (\<lambda>right p1.
          pInequalityLoop P (InequalityExpr left right (Value (atToken p))) p1)
      else Ok (left, p))"

definition parseInequalityExpression :: "host \<Rightarrow> Parsers \<Rightarrow> Parser \<Rightarrow> Statement parsed" where
  "parseInequalityExpression H P p =
     thenParse (parseAdditiveExpression H P p) (\<lambda>left p1.
       parseInequalityExpression_loop H P left p1)"

definition parseEqualityExpression_loop ::
  "host \<Rightarrow> Parsers \<Rightarrow> Statement \<Rightarrow> Parser \<Rightarrow> Statement parsed" where
  "parseEqualityExpression_loop H P left p =
     (if Type (atToken p) = EQUALITY_OP \<or> Type (atToken p) = INEQUALITY_OP then
        thenParse (parseInequalityExpression H P (skip p)) (\<lambda>right p1.
          pEqualityLoop P (EqualityExpr left right (Value (atToken p))) p1)
      else Ok (left, p))"

definition parseEqualityExpression :: "host \<Rightarrow> Parsers \<Rightarrow> Parser \<Rightarrow> Statement parsed" where
  "parseEqualityExpression H P p =
     thenParse (parseInequalityExpression H P p) (\<lambda>left p1.
       parseEqualityExpression_loop H P left p1)"

definition parseLogicalExpression_loop ::
  "host \<Rightarrow> Parsers \<Rightarrow> Statement \<Rightarrow> Parser \<Rightarrow> Statement parsed" where
  "parseLogicalExpression_loop H P left p =
     (if Type (atToken p) = AND \<or> Type (atToken p) = OR then
        thenParse (parseEqualityExpression H P (skip p)) (\<lambda>right p1.
          pLogicalLoop P (LogicalExpr left right (Value (atToken p))) p1)
      else Ok (left, p))"

definition parseLogicalExpression :: "host \<Rightarrow> Parsers \<Rightarrow> Parser \<Rightarrow> Statement parsed" where
  "parseLogicalExpression H P p =
     thenParse (parseEqualityExpression H P p) (\<lambda>left p1.
       parseLogicalExpression_loop H P left p1)"

definition parseTernaryExpression :: "host \<Rightarrow> Parsers \<Rightarrow> Parser \<Rightarrow> Statement parsed" where
  "parseTernaryExpression H P p =
     thenParse (parseLogicalExpression H P p) (\<lambda>expr p1.
       if Type (atToken p1) = TERNARY then
         thenParse (parseLogicalExpression H P (skip p1)) (\<lambda>consequent p2.
           if Type (atToken p2) \<noteq> COLON then
             formatError ''expected ':' in ternary expression'' (atToken p2)
           else
             thenParse (pTernaryExpression P (skip p2)) (\<lambda>alternate p3.
               Ok (TernaryExpr expr consequent alternate, p3)))
       else Ok (expr, p1))"

definition parseAssignmentExpression :: "host \<Rightarrow> Parsers \<Rightarrow> Parser \<Rightarrow> Statement parsed" where
  "parseAssignmentExpression H P p =
     thenParse (parseTernaryExpression H P p) (\<lambda>left p1.
       if Type (atToken p1) = EQUALS then
         thenParse (pExpression P (skip p1)) (\<lambda>val p2. Ok (AssignmentExpr left val, p2))
       else if Type (atToken p1) = COLON then
         (if Type (atToken (skip (skip p1))) = EQUALS then
            thenParse (pExpression P (skip (skip (skip p1)))) (\<lambda>val p2.
              Ok (ActionAssignmentExpr left val (Value (atToken (skip p1))) [], p2))
          else Ok (left, skip (skip p1)))
       else Ok (left, p1))"

definition parseExpression :: "host \<Rightarrow> Parsers \<Rightarrow> Parser \<Rightarrow> Statement parsed" where
  "parseExpression H P p = parseAssignmentExpression H P p"

definition parseFunctionDeclaration :: "host \<Rightarrow> Parsers \<Rightarrow> Parser \<Rightarrow> Statement parsed" where
  "parseFunctionDeclaration H P p =
     (let out = (Type (atToken p) = OUT) in
      if out \<and> Type (atToken (skip p)) \<noteq> FN then
        formatError (''expected 'fn' after 'out'' @ [CHR 0x27]) (atToken (skip p))
      else
        (let p0 = (if out then skip (skip p) else skip p) in
         if Type (atToken p0) = COLON then
           (if Type (atToken (skip p0)) = COLON then
              thenParse (parseExpression H P (skip (skip p0))) (\<lambda>expr p1.
                Ok (FunctionDeclaration [] [] [ReturnExpr expr] out, p1))
            else formatError ''unexpected ':' after 'fn' in function declaration''
                   (atToken (skip p0)))
         else if Type (atToken p0) \<noteq> IDENTIFIER then formatError ''expected function name'' (atToken p0)
         else
           thenParse (parseParameterList P (skip p0)) (\<lambda>parameters p1.
             thenParse (parseFunctionBody P p1) (\<lambda>body p2.
               Ok (FunctionDeclaration (Value (atToken p0)) parameters body out, p2)))))"

text \<open>
  A body that is a block or, after a colon, a single statement, as
  \<^verbatim>\<open>parseIfStatement\<close> and \<^verbatim>\<open>parseWhileStatement\<close> write it; the two differ in
  their error messages only.
\<close>

definition parseBody :: "Parsers \<Rightarrow> string \<Rightarrow> string \<Rightarrow> Parser \<Rightarrow> Statement list parsed" where
  "parseBody P missingBody missingBrace p =
     (if Type (atToken p) \<noteq> OPEN_BRACE \<and> Type (atToken p) \<noteq> COLON then Err (ParseError missingBody)
      else if Type (atToken p) = OPEN_BRACE then
        thenParse (parseBlock P [] (skip p)) (\<lambda>body p1.
          if Type (atToken p1) \<noteq> CLOSE_BRACE then Err (ParseError missingBrace)
          else Ok (body, skip p1))
      else
        thenParse (pStatement P (skip p)) (\<lambda>stmt p1.
          Ok (case stmt of Some st \<Rightarrow> [st] | None \<Rightarrow> [], p1)))"

definition parseIfStatement :: "host \<Rightarrow> Parsers \<Rightarrow> Parser \<Rightarrow> Statement parsed" where
  "parseIfStatement H P p =
     thenParse (parseExpression H P (skip p)) (\<lambda>test p1.
       thenParse (parseBody P ''expected '{' or ':' after if condition''
                    ''expected '}' after if body'' p1) (\<lambda>consequent p2.
         if Type (atToken p2) = ELSE then
           (if Type (atToken (skip p2)) = IF then
              thenParse (pIfStatement P (skip p2)) (\<lambda>elseIf p3.
                Ok (IfStatement test consequent [elseIf], p3))
            else if Type (atToken (skip p2)) = OPEN_BRACE then
              thenParse (parseBlock P [] (skip (skip p2))) (\<lambda>alternate p3.
                if Type (atToken p3) \<noteq> CLOSE_BRACE then
                  Err (ParseError ''expected '}' after else body'')
                else Ok (IfStatement test consequent alternate, skip p3))
            else
              thenParse (pStatement P (skip p2)) (\<lambda>stmt p3.
                Ok (IfStatement test consequent
                      (case stmt of Some st \<Rightarrow> [st] | None \<Rightarrow> []), p3)))
         else Ok (IfStatement test consequent [], p2)))"

definition parseWhileStatement :: "host \<Rightarrow> Parsers \<Rightarrow> Parser \<Rightarrow> Statement parsed" where
  "parseWhileStatement H P p =
     thenParse (parseExpression H P (skip p)) (\<lambda>test p1.
       thenParse (parseBody P ''expected '{' or ':' after while condition''
                    ''expected '}' after while body'' p1) (\<lambda>consequent p2.
         Ok (WhileStatement test consequent, p2)))"

definition parseForStatement :: "host \<Rightarrow> Parsers \<Rightarrow> Parser \<Rightarrow> Statement parsed" where
  "parseForStatement H P p =
     thenParse (parseExpression H P (skip p)) (\<lambda>declaration p1.
       if Type (atToken p1) \<noteq> SEMICOLON then Err (ParseError ''expected ';' after for declaration'')
       else
         thenParse (parseExpression H P (skip p1)) (\<lambda>test p2.
           if Type (atToken p2) \<noteq> SEMICOLON then Err (ParseError ''expected ';' after for test'')
           else
             thenParse (parseExpression H P (skip p2)) (\<lambda>increaser p3.
               if Type (atToken p3) \<noteq> OPEN_BRACE then
                 Err (ParseError ''expected '{' after for header'')
               else
                 thenParse (parseBlock P [] (skip p3)) (\<lambda>body p4.
                   if Type (atToken p4) \<noteq> CLOSE_BRACE then
                     Err (ParseError ''expected '}' after for body'')
                   else Ok (ForStatement declaration test increaser body, skip p4)))))"

definition parseReturnStatement :: "host \<Rightarrow> Parsers \<Rightarrow> Parser \<Rightarrow> Statement parsed" where
  "parseReturnStatement H P p =
     thenParse (parseExpression H P (skip p)) (\<lambda>val p1. Ok (ReturnExpr val, p1))"

definition parseDebugStatement :: "host \<Rightarrow> Parsers \<Rightarrow> Parser \<Rightarrow> Statement parsed" where
  "parseDebugStatement H P p =
     (if Type (atToken (skip p)) = OPEN_BRACE then
        thenParse (if Type (atToken (skip (skip p))) \<noteq> CLOSE_BRACE
                   then parseExpressionList P [] (skip (skip p))
                   else Ok ([], skip (skip p))) (\<lambda>props p1.
          if Type (atToken p1) \<noteq> CLOSE_BRACE then Err (ParseError ''expected '}' after debug props'')
          else Ok (DebugStatement props, skip p1))
      else
        thenParse (parseExpression H P (skip p)) (\<lambda>expr p1. Ok (DebugStatement [expr], p1)))"

definition parseStatement :: "host \<Rightarrow> Parsers \<Rightarrow> Parser \<Rightarrow> Statement option parsed" where
  "parseStatement H P p =
     thenParse
       (let token = atToken p in
        if Type token = NEWLINE then Ok (None, skip p)
        else
          thenParse
            (if Type token = OUT then parseFunctionDeclaration H P p
             else if Type token = FN then parseFunctionDeclaration H P p
             else if Type token = IF then parseIfStatement H P p
             else if Type token = WHILE then parseWhileStatement H P p
             else if Type token = FOR then parseForStatement H P p
             else if Type token = RETURN then parseReturnStatement H P p
             else if Type token = DEBUG then parseDebugStatement H P p
             else if Type token = USE then parseUseStatement p
             else parseExpression H P p)
            (\<lambda>returned p1. Ok (Some returned, p1)))
       (\<lambda>returned p1. Ok (returned, if Type (atToken p1) = SEMICOLON then skip p1 else p1))"

definition ProduceAST_loop :: "host \<Rightarrow> Parsers \<Rightarrow> Statement list \<Rightarrow> Parser \<Rightarrow> Statement parsed" where
  "ProduceAST_loop H P body p =
     (if \<not> isEOF p then
        thenParse (parseStatement H P p) (\<lambda>stmt p1.
          pProgramLoop P (case stmt of Some st \<Rightarrow> body @ [st] | None \<Rightarrow> body) p1)
      else Ok (Program body, p))"

primrec parsers :: "host \<Rightarrow> nat \<Rightarrow> Parsers" where
  "parsers H 0 =
     \<lparr>pStatement = (\<lambda>p. OutOfFuel), pExpression = (\<lambda>p. OutOfFuel),
      pTernaryExpression = (\<lambda>p. OutOfFuel), pUnaryExpression = (\<lambda>p. OutOfFuel),
      pIfStatement = (\<lambda>p. OutOfFuel), pCallExpression = (\<lambda>caller p. OutOfFuel),
      pLogicalLoop = (\<lambda>left p. OutOfFuel), pEqualityLoop = (\<lambda>left p. OutOfFuel),
      pInequalityLoop = (\<lambda>left p. OutOfFuel), pAdditiveLoop = (\<lambda>left p. OutOfFuel),
      pMultiplicativeLoop = (\<lambda>left p. OutOfFuel), pMemberLoop = (\<lambda>object p. OutOfFuel),
      pExpressionList = (\<lambda>acc p. OutOfFuel), pPropertyList = (\<lambda>acc p. OutOfFuel),
      pParameterLoop = (\<lambda>acc p. OutOfFuel), pBlock = (\<lambda>acc p. OutOfFuel),
      pProgramLoop = (\<lambda>acc p. OutOfFuel)\<rparr>"
| "parsers H (Suc n) =
     (let P = parsers H n in
      \<lparr>pStatement = parseStatement H P,
      pExpression = parseExpression H P,
      pTernaryExpression = parseTernaryExpression H P,
      pUnaryExpression = parseUnaryExpression H P,
      pIfStatement = parseIfStatement H P,
      pCallExpression = parseCallExpression P,
      pLogicalLoop = parseLogicalExpression_loop H P,
      pEqualityLoop = parseEqualityExpression_loop H P,
      pInequalityLoop = parseInequalityExpression_loop H P,
      pAdditiveLoop = parseAdditiveExpression_loop H P,
      pMultiplicativeLoop = parseMultiplicativeExpression_loop H P,
      pMemberLoop = parseMemberExpression_loop H P,
      pExpressionList = parseExpressionList P,
      pPropertyList = parsePropertyList P,
      pParameterLoop = parseParameterList_loop P,
      pBlock = parseBlock P,
      pProgramLoop = ProduceAST_loop H P\<rparr>)"

definition ProduceAST :: "host \<Rightarrow> nat \<Rightarrow> Parser \<Rightarrow> Statement parsed" where
  "ProduceAST H fuel p = ProduceAST_loop H (parsers H fuel) [] p"

section \<open>The interpreter's entry points (luna.go)\<close>

definition Luna_Parse :: "host \<Rightarrow> nat \<Rightarrow> Token list \<Rightarrow> Statement result" where
  "Luna_Parse H fuel toks =
     (case ProduceAST H fuel (NewParser toks []) of
        Ok (ast, p) \<Rightarrow> Ok ast
      | Err e \<Rightarrow> Err e
      | Panic msg \<Rightarrow> Panic msg
      | OutOfFuel \<Rightarrow> OutOfFuel)"

definition Luna_Evaluate ::
  "host \<Rightarrow> nat \<Rightarrow> string \<Rightarrow> env_ptr \<Rightarrow> State \<Rightarrow> RuntimeValue result \<times> State" where
  "Luna_Evaluate H fuel src env s =
     (case Tokenize src of
        Inl e \<Rightarrow> (Err e, s)
      | Inr toks \<Rightarrow>
          (case Luna_Parse H fuel toks of
             Ok ast \<Rightarrow> Evaluate H fuel ast env s
           | Err e \<Rightarrow> (Err e, s)
           | Panic msg \<Rightarrow> (Panic msg, s)
           | OutOfFuel \<Rightarrow> (OutOfFuel, s)))"

text \<open>
  A host that provides nothing and an empty store, for running closed examples.
\<close>

definition bareHost :: host where
  "bareHost =
     \<lparr>nativeCall = (\<lambda>name call args env s. (Err (RuntimeError ''native function not available''), s)),
      parseFloat = (\<lambda>str. Inl (NumError str)),
      floatArith = (\<lambda>op a b. NaN),
      formatFloat = (\<lambda>f. ''NaN''),
      floatToInt = (\<lambda>f. 0),
      rangeOrder = (\<lambda>m. []),
      renderContainer = (\<lambda>s v. [])\<rparr>"

definition emptyStore :: State where
  "emptyStore =
     \<lparr>frames = (\<lambda>a. \<lparr>variables = Map.empty, constants = Map.empty\<rparr>), nextFrame = 0,
      arrays = (\<lambda>a. []), nextArray = 0, objects = (\<lambda>a. []), nextObject = 0\<rparr>"

text \<open>
  The shape of a finished token stream, relative to the tokens collected so far: some
  further tokens, none of them an end-of-stream token, and then one end-of-stream token
  whose absolute offset is \<open>n\<close>.
\<close>

definition stream_ok :: "nat \<Rightarrow> Token list \<Rightarrow> Token list \<Rightarrow> bool" where
  "stream_ok n acc toks =
     (\<exists>mid eof. toks = acc @ mid @ [eof] \<and> (\<forall>tok \<in> set mid. Type tok \<noteq> EOF)
        \<and> Type eof = EOF \<and> Index (Position eof) = n)"


section \<open>Verified properties\<close>

subsection \<open>The token stream ends with one end-of-stream token\<close>

lemma advance_bounded:
  "Tokenizer.position t \<le> length (input t) \<Longrightarrow>
     Tokenizer.position (advance t) \<le> length (input (advance t)) \<and> input (advance t) = input t"
  by (simp add: advance_def)

lemma readString_loop_bounded:
  "readString_loop q t r e = (res, t') \<Longrightarrow> Tokenizer.position t \<le> length (input t)
     \<Longrightarrow> Tokenizer.position t' \<le> length (input t') \<and> input t' = input t"
proof (induction q t r e rule: readString_loop.induct)
  case (1 quote t result escaped)
  show ?case
  proof (cases "Tokenizer.position t < length (input t)")
    case True
    with "1.prems" "1.IH" advance_bounded [OF "1.prems"(2)] show ?thesis
      by (auto simp add: readString_loop.simps [of quote t result escaped] Let_def
            split: if_splits)
  next
    case False
    with "1.prems" show ?thesis
      by (simp add: readString_loop.simps [of quote t result escaped])
  qed
qed

lemma readNumber_loop_bounded:
  "readNumber_loop t r f = (res, t') \<Longrightarrow> Tokenizer.position t \<le> length (input t)
     \<Longrightarrow> Tokenizer.position t' \<le> length (input t') \<and> input t' = input t"
proof (induction t r f rule: readNumber_loop.induct)
  case (1 t result isFloat)
  show ?case
  proof (cases "Tokenizer.position t < length (input t)")
    case True
    with "1.prems" "1.IH" advance_bounded [OF "1.prems"(2)] show ?thesis
      by (auto simp add: readNumber_loop.simps [of t result isFloat] split: if_splits)
  next
    case False
    with "1.prems" show ?thesis
      by (simp add: readNumber_loop.simps [of t result isFloat])
  qed
qed

lemma readIdentifier_loop_bounded:
  "readIdentifier_loop t r = (res, t') \<Longrightarrow> Tokenizer.position t \<le> length (input t)
     \<Longrightarrow> Tokenizer.position t' \<le> length (input t') \<and> input t' = input t"
proof (induction t r rule: readIdentifier_loop.induct)
  case (1 t result)
  show ?case
  proof (cases "Tokenizer.position t < length (input t)")
    case True
    with "1.prems" "1.IH" advance_bounded [OF "1.prems"(2)] show ?thesis
      by (auto simp add: readIdentifier_loop.simps [of t result] split: if_splits)
  next
    case False
    with "1.prems" show ?thesis
      by (simp add: readIdentifier_loop.simps [of t result])
  qed
qed

lemma readOperator_loop_bounded:
  "readOperator_loop t r = (res, t') \<Longrightarrow> Tokenizer.position t \<le> length (input t)
     \<Longrightarrow> Tokenizer.position t' \<le> length (input t') \<and> input t' = input t"
proof (induction t r rule: readOperator_loop.induct)
  case (1 t result)
  show ?case
  proof (cases "Tokenizer.position t < length (input t)")
    case True
    with "1.prems" "1.IH" advance_bounded [OF "1.prems"(2)] show ?thesis
      by (auto simp add: readOperator_loop.simps [of t result] split: if_splits)
  next
    case False
    with "1.prems" show ?thesis
      by (simp add: readOperator_loop.simps [of t result])
  qed
qed

lemma skipComment_bounded:
  "Tokenizer.position t \<le> length (input t)
     \<Longrightarrow> Tokenizer.position (skipComment t) \<le> length (input (skipComment t))
         \<and> input (skipComment t) = input t"
proof (induction t rule: skipComment.induct)
  case (1 t)
  show ?case
  proof (cases "Tokenizer.position t < length (input t) \<and> current t \<noteq> CHR 0x0A")
    case True
    with "1.prems" "1.IH" advance_bounded [OF "1.prems"] show ?thesis
      by (auto simp add: skipComment.simps [of t])
  next
    case False
    with "1.prems" show ?thesis
      by (auto simp add: skipComment.simps [of t])
  qed
qed

lemma keywordTable_not_EOF: "keywordTable s \<noteq> Some EOF"
  by (simp add: keywordTable_def)

lemma punctuation_not_EOF: "punctuation c \<noteq> Some EOF"
  by (simp add: punctuation_def)

lemma getOperatorType_not_EOF: "getOperatorType op \<noteq> EOF"
  by (simp add: getOperatorType_def)


lemma stream_ok_step:
  "stream_ok n (acc @ [tok]) toks \<Longrightarrow> Type tok \<noteq> EOF \<Longrightarrow> stream_ok n acc toks"
  unfolding stream_ok_def
proof (elim exE conjE)
  fix mid eof
  assume "toks = (acc @ [tok]) @ mid @ [eof]" "\<forall>tok\<in>set mid. Type tok \<noteq> EOF"
    "Type eof = EOF" "Index (Position eof) = n" "Type tok \<noteq> EOF"
  then have "toks = acc @ (tok # mid) @ [eof] \<and> (\<forall>tok\<in>set (tok # mid). Type tok \<noteq> EOF)
     \<and> Type eof = EOF \<and> Index (Position eof) = n"
    by simp
  then show "\<exists>mid eof. toks = acc @ mid @ [eof] \<and> (\<forall>tok\<in>set mid. Type tok \<noteq> EOF)
     \<and> Type eof = EOF \<and> Index (Position eof) = n"
    by blast
qed

lemma Tokenize_loop_stream_ok:
  "Tokenize_loop t acc = Inr toks \<Longrightarrow> Tokenizer.position t \<le> length (input t)
     \<Longrightarrow> stream_ok (length (input t)) acc toks"
proof (induction t acc rule: Tokenize_loop.induct)
  case (1 t acc)
  show ?case
  proof (cases "Tokenizer.position t < length (input t)")
    case False
    with "1.prems" have "toks = acc @ [] @ [\<lparr>Type = EOF, Value = [], Position = here t\<rparr>]"
      and "Tokenizer.position t = length (input t)"
      by (simp_all add: Tokenize_loop.simps [of t acc])
    then show ?thesis
      unfolding stream_ok_def
      by (intro exI [of _ "[]"] exI [of _ "\<lparr>Type = EOF, Value = [], Position = here t\<rparr>"])
         (simp add: here_def)
  next
    case True
    let ?c = "current t"
    have inb: "Tokenizer.position t \<le> length (input t)" by (rule "1.prems"(2))
    note unf = Tokenize_loop.simps [of t acc]
    show ?thesis
    proof (cases "?c = CHR 0x0A")
      case nl: True
      let ?t' = "advance (t\<lparr>line := line t + 1, index := 0\<rparr>)"
      let ?tok = "\<lparr>Type = NEWLINE, Value = [?c], Position = here t\<rparr>"
      from "1.prems"(1) True nl have run: "Tokenize_loop ?t' (acc @ [?tok]) = Inr toks"
        by (simp add: unf)
      have b: "Tokenizer.position ?t' \<le> length (input ?t')" "input ?t' = input t"
        using inb by (simp_all add: advance_def)
      from "1.IH"(1) [OF True refl nl run b(1)] b(2)
      have "stream_ok (length (input t)) (acc @ [?tok]) toks" by simp
      then show ?thesis by (rule stream_ok_step) simp
    next
      case nnl: False
      show ?thesis
      proof (cases "IsSpace ?c")
        case sp: True
        from "1.prems"(1) True nnl sp have run: "Tokenize_loop (advance t) acc = Inr toks"
          by (simp add: unf)
        from "1.IH"(2) [OF True refl nnl sp run] advance_bounded [OF inb]
        show ?thesis by auto
      next
        case nsp: False
        show ?thesis
        proof (cases "?c = CHR ''#''")
          case cm: True
          from "1.prems"(1) True nnl nsp cm
          have run: "Tokenize_loop (skipComment t) acc = Inr toks"
            by (simp add: unf)
          from "1.IH"(3) [OF True refl nnl nsp cm run] skipComment_bounded [OF inb]
          show ?thesis by auto
        next
          case ncm: False
          show ?thesis
          proof (cases "?c = CHR 0x22 \<or> ?c = CHR 0x27")
            case q: True
            obtain res t' where rd: "readString ?c t = (res, t')" by (cases "readString ?c t")
            from "1.prems"(1) True nnl nsp ncm q rd obtain str where res: "res = Inr str"
              by (cases res) (auto simp add: unf Let_def)
            let ?tok = "\<lparr>Type = STRING, Value = str, Position = here t\<rparr>"
            from "1.prems"(1) True nnl nsp ncm q rd res
            have run: "Tokenize_loop t' (acc @ [?tok]) = Inr toks"
              by (auto simp add: unf Let_def)
            from rd have "readString_loop ?c (advance t) [] False = (res, t')"
              by (simp add: readString_def)
            from readString_loop_bounded [OF this] advance_bounded [OF inb]
            have b: "Tokenizer.position t' \<le> length (input t')" "input t' = input t" by auto
            from "1.IH"(4) [OF True refl nnl nsp ncm q rd [symmetric] res run b(1)] b(2)
            have "stream_ok (length (input t)) (acc @ [?tok]) toks" by simp
            then show ?thesis by (rule stream_ok_step) simp
          next
            case nq: False
            show ?thesis
            proof (cases "IsDigit ?c")
              case dg: True
              obtain num isFloat t' where rd: "readNumber t = ((num, isFloat), t')"
                by (cases "readNumber t") auto
              let ?tok = "\<lparr>Type = (if isFloat then FLOAT else INT_TOKEN), Value = num,
                            Position = here t\<rparr>"
              from "1.prems"(1) True nnl nsp ncm nq dg rd
              have run: "Tokenize_loop t' (acc @ [?tok]) = Inr toks"
                by (auto simp add: unf Let_def)
              from rd have "readNumber_loop t [] False = ((num, isFloat), t')"
                by (simp add: readNumber_def)
              from readNumber_loop_bounded [OF this inb]
              have b: "Tokenizer.position t' \<le> length (input t')" "input t' = input t" by auto
              from "1.IH"(5) [OF True refl nnl nsp ncm nq dg rd [symmetric] refl run b(1)] b(2)
              have "stream_ok (length (input t)) (acc @ [?tok]) toks" by simp
              then show ?thesis by (rule stream_ok_step) simp
            next
              case ndg: False
              show ?thesis
              proof (cases "IsLetter ?c \<or> ?c = CHR ''_''")
                case lt: True
                obtain ident t' where rd: "readIdentifier t = (ident, t')"
                  by (cases "readIdentifier t")
                let ?tok = "\<lparr>Type = (case keywordTable ident of Some kw \<Rightarrow> kw
                                          | None \<Rightarrow> IDENTIFIER),
                              Value = ident, Position = here t\<rparr>"
                from "1.prems"(1) True nnl nsp ncm nq ndg lt rd
                have run: "Tokenize_loop t' (acc @ [?tok]) = Inr toks"
                  by (auto simp add: unf Let_def)
                from rd have "readIdentifier_loop t [] = (ident, t')"
                  by (simp add: readIdentifier_def)
                from readIdentifier_loop_bounded [OF this inb]
                have b: "Tokenizer.position t' \<le> length (input t')" "input t' = input t" by auto
                from "1.IH"(6) [OF True refl nnl nsp ncm nq ndg lt rd [symmetric] run b(1)] b(2)
                have "stream_ok (length (input t)) (acc @ [?tok]) toks" by simp
                moreover have "Type ?tok \<noteq> EOF"
                  using keywordTable_not_EOF [of ident]
                  by (cases "keywordTable ident") auto
                ultimately show ?thesis by (rule stream_ok_step)
              next
                case nlt: False
                show ?thesis
                proof (cases "punctuation ?c")
                  case (Some ty)
                  let ?tok = "\<lparr>Type = ty, Value = [?c], Position = here t\<rparr>"
                  from "1.prems"(1) True nnl nsp ncm nq ndg nlt Some
                  have run: "Tokenize_loop (advance t) (acc @ [?tok]) = Inr toks"
                    by (auto simp add: unf Let_def)
                  from "1.IH"(8) [OF True refl nnl nsp ncm nq ndg nlt Some run]
                    advance_bounded [OF inb]
                  have "stream_ok (length (input t)) (acc @ [?tok]) toks" by auto
                  moreover have "Type ?tok \<noteq> EOF"
                    using punctuation_not_EOF [of ?c] Some by auto
                  ultimately show ?thesis by (rule stream_ok_step)
                next
                  case None
                  from "1.prems"(1) True nnl nsp ncm nq ndg nlt None
                  have isop: "isOperator ?c"
                    by (auto simp add: unf Let_def split: if_splits)
                  obtain op t' where rd: "readOperator t = (op, t')"
                    by (cases "readOperator t")
                  let ?tok = "\<lparr>Type = getOperatorType op, Value = op, Position = here t\<rparr>"
                  from "1.prems"(1) True nnl nsp ncm nq ndg nlt None isop rd
                  have run: "Tokenize_loop t' (acc @ [?tok]) = Inr toks"
                    by (auto simp add: unf Let_def)
                  from rd have "readOperator_loop t [] = (op, t')"
                    by (simp add: readOperator_def)
                  from readOperator_loop_bounded [OF this inb]
                  have b: "Tokenizer.position t' \<le> length (input t')" "input t' = input t" by auto
                  from "1.IH"(7) [OF True refl nnl nsp ncm nq ndg nlt None isop rd [symmetric] run b(1)]
                    b(2)
                  have "stream_ok (length (input t)) (acc @ [?tok]) toks" by simp
                  moreover have "Type ?tok \<noteq> EOF"
                    using getOperatorType_not_EOF [of op] by simp
                  ultimately show ?thesis by (rule stream_ok_step)
                qed
              qed
            qed
          qed
        qed
      qed
    qed
  qed
qed


text \<open>
  Claim C7.  Whenever tokenization succeeds, the token sequence is not empty, its last
  token is the end-of-stream token, exactly one token of the sequence has that kind, and
  the absolute offset recorded in it is the length of the input (counted in runes, as
  every offset of the tokenizer is).
\<close>

theorem Tokenize_ends_with_single_EOF:
  assumes "Tokenize inp = Inr toks"
  shows "toks \<noteq> [] \<and> Type (last toks) = EOF
     \<and> length (filter (\<lambda>tok. Type tok = EOF) toks) = 1
     \<and> Index (Position (last toks)) = length inp"
proof -
  from assms have "Tokenize_loop (NewTokenizer inp) [] = Inr toks"
    by (simp add: Tokenize_def)
  from Tokenize_loop_stream_ok [OF this]
  have "stream_ok (length inp) [] toks"
    by (simp add: NewTokenizer_def)
  then obtain mid eof where toks: "toks = mid @ [eof]"
    and mid: "\<forall>tok \<in> set mid. Type tok \<noteq> EOF"
    and eof: "Type eof = EOF" "Index (Position eof) = length inp"
    unfolding stream_ok_def by auto
  from mid have "filter (\<lambda>tok. Type tok = EOF) mid = []"
    by (simp add: filter_empty_conv)
  with toks eof show ?thesis by simp
qed

lemma Tokenize_example:
  "Tokenize ''a<=1'' = Inr
     [\<lparr>Type = IDENTIFIER, Value = ''a'', Position = \<lparr>Line = 0, Column = 0, Index = 0\<rparr>\<rparr>,
      \<lparr>Type = SMALLER_OR_EQUAL, Value = ''<='', Position = \<lparr>Line = 0, Column = 1, Index = 1\<rparr>\<rparr>,
      \<lparr>Type = INT_TOKEN, Value = ''1'', Position = \<lparr>Line = 0, Column = 3, Index = 3\<rparr>\<rparr>,
      \<lparr>Type = EOF, Value = [], Position = \<lparr>Line = 0, Column = 4, Index = 4\<rparr>\<rparr>]"
  by (simp add: Tokenize_def NewTokenizer_def Tokenize_loop.simps readNumber_def
      readNumber_loop.simps readIdentifier_def readIdentifier_loop.simps readOperator_def
      readOperator_loop.simps current_def advance_def here_def Let_def IsSpace_def IsDigit_def
      IsLetter_def isOperator_def punctuation_def keywordTable_def getOperatorType_def
      twoCharOperators_def)

theorem Tokenize_ends_with_single_EOF_witness:
  "Tokenize ''a<=1'' = Inr
     [\<lparr>Type = IDENTIFIER, Value = ''a'', Position = \<lparr>Line = 0, Column = 0, Index = 0\<rparr>\<rparr>,
      \<lparr>Type = SMALLER_OR_EQUAL, Value = ''<='', Position = \<lparr>Line = 0, Column = 1, Index = 1\<rparr>\<rparr>,
      \<lparr>Type = INT_TOKEN, Value = ''1'', Position = \<lparr>Line = 0, Column = 3, Index = 3\<rparr>\<rparr>,
      \<lparr>Type = EOF, Value = [], Position = \<lparr>Line = 0, Column = 4, Index = 4\<rparr>\<rparr>]
   \<and> Index (Position \<lparr>Type = EOF, Value = [], Position = \<lparr>Line = 0, Column = 4, Index = 4\<rparr>\<rparr>)
       = length ''a<=1''"
  using Tokenize_ends_with_single_EOF [OF Tokenize_example] Tokenize_example by simp

end
